theory Spec2Isabelle
  imports Complex_Main
begin

section \<open>JavaScript numbers\<close>

text \<open>
  The renderer computes with JavaScript numbers. They are modelled as exact reals extended
  with the three special values of IEEE 754 that the program can produce: both infinities
  and not-a-number. Rounding, overflow to infinity and the sign of zero are not modelled:
  a finite result is the exact real result, and the only zero is the positive one
  (every zero divisor of this program is a difference \<open>x - x\<close> or a sum \<open>x + (-x)\<close>,
  which IEEE 754 rounds to \<open>+0\<close>). The code computes the same value wherever that exact
  result is a value of a double.
\<close>

datatype jsnum = Fin real | PInf | NInf | NaN

instantiation jsnum :: "{plus, minus, uminus, times, inverse, ord}"
begin

fun uminus_jsnum :: "jsnum \<Rightarrow> jsnum" where
  "- (Fin a) = Fin (- a)"
| "- PInf = NInf"
| "- NInf = PInf"
| "- NaN = NaN"

fun plus_jsnum :: "jsnum \<Rightarrow> jsnum \<Rightarrow> jsnum" where
  "Fin a + Fin b = Fin (a + b)"
| "NaN + _ = NaN"
| "_ + NaN = NaN"
| "PInf + NInf = NaN"
| "NInf + PInf = NaN"
| "PInf + _ = PInf"
| "_ + PInf = PInf"
| "NInf + _ = NInf"
| "_ + NInf = NInf"

definition minus_jsnum :: "jsnum \<Rightarrow> jsnum \<Rightarrow> jsnum" where
  "a - b = a + (- b)" for a b :: jsnum

fun times_jsnum :: "jsnum \<Rightarrow> jsnum \<Rightarrow> jsnum" where
  "Fin a * Fin b = Fin (a * b)"
| "NaN * _ = NaN"
| "_ * NaN = NaN"
| "Fin a * PInf = (if a = 0 then NaN else if 0 < a then PInf else NInf)"
| "Fin a * NInf = (if a = 0 then NaN else if 0 < a then NInf else PInf)"
| "PInf * Fin b = (if b = 0 then NaN else if 0 < b then PInf else NInf)"
| "NInf * Fin b = (if b = 0 then NaN else if 0 < b then NInf else PInf)"
| "PInf * PInf = PInf"
| "PInf * NInf = NInf"
| "NInf * PInf = NInf"
| "NInf * NInf = PInf"

fun divide_jsnum :: "jsnum \<Rightarrow> jsnum \<Rightarrow> jsnum" where
  "divide_jsnum (Fin a) (Fin b) =
     (if b \<noteq> 0 then Fin (a / b)
      else if a = 0 then NaN else if 0 < a then PInf else NInf)"
| "divide_jsnum NaN _ = NaN"
| "divide_jsnum _ NaN = NaN"
| "divide_jsnum (Fin a) PInf = Fin 0"
| "divide_jsnum (Fin a) NInf = Fin 0"
| "divide_jsnum PInf (Fin b) = (if 0 \<le> b then PInf else NInf)"
| "divide_jsnum NInf (Fin b) = (if 0 \<le> b then NInf else PInf)"
| "divide_jsnum PInf PInf = NaN"
| "divide_jsnum PInf NInf = NaN"
| "divide_jsnum NInf PInf = NaN"
| "divide_jsnum NInf NInf = NaN"

definition inverse_jsnum :: "jsnum \<Rightarrow> jsnum" where
  "inverse a = divide (Fin 1) a" for a :: jsnum

fun less_jsnum :: "jsnum \<Rightarrow> jsnum \<Rightarrow> bool" where
  "Fin a < Fin b \<longleftrightarrow> a < b"
| "NaN < _ \<longleftrightarrow> False"
| "_ < NaN \<longleftrightarrow> False"
| "NInf < Fin b \<longleftrightarrow> True"
| "NInf < PInf \<longleftrightarrow> True"
| "Fin a < PInf \<longleftrightarrow> True"
| "_ < NInf \<longleftrightarrow> False"
| "PInf < _ \<longleftrightarrow> False"

definition less_eq_jsnum :: "jsnum \<Rightarrow> jsnum \<Rightarrow> bool" where
  "a \<le> b \<longleftrightarrow> a < b \<or> (a = b \<and> a \<noteq> NaN)" for a b :: jsnum

instance ..

end

text \<open>\<open>Math.abs\<close>, \<open>Math.sqrt\<close>, \<open>Math.sin\<close> and \<open>Math.cos\<close>.\<close>

fun Math_abs :: "jsnum \<Rightarrow> jsnum" where
  "Math_abs (Fin a) = Fin \<bar>a\<bar>"
| "Math_abs PInf = PInf"
| "Math_abs NInf = PInf"
| "Math_abs NaN = NaN"

fun Math_sqrt :: "jsnum \<Rightarrow> jsnum" where
  "Math_sqrt (Fin a) = (if a < 0 then NaN else Fin (sqrt a))"
| "Math_sqrt PInf = PInf"
| "Math_sqrt NInf = NaN"
| "Math_sqrt NaN = NaN"

fun Math_sin :: "jsnum \<Rightarrow> jsnum" where
  "Math_sin (Fin a) = Fin (sin a)"
| "Math_sin _ = NaN"

fun Math_cos :: "jsnum \<Rightarrow> jsnum" where
  "Math_cos (Fin a) = Fin (cos a)"
| "Math_cos _ = NaN"

text \<open>
  \<open>Math.min(...xs)\<close> and \<open>Math.max(...xs)\<close> as ECMAScript defines them: any
  not-a-number argument makes the result not-a-number; otherwise the arguments are
  scanned from \<open>+Infinity\<close> (from \<open>-Infinity\<close> for the maximum), which is also the
  result for no argument at all.
\<close>

definition Math_min :: "jsnum list \<Rightarrow> jsnum" where
  "Math_min xs =
     (if NaN \<in> set xs then NaN
      else fold (\<lambda>n lowest. if n < lowest then n else lowest) xs PInf)"

definition Math_max :: "jsnum list \<Rightarrow> jsnum" where
  "Math_max xs =
     (if NaN \<in> set xs then NaN
      else fold (\<lambda>n highest. if highest < n then n else highest) xs NInf)"

text \<open>
  Reading \<open>a[i]\<close> where the value is used as a number: an index outside the array reads
  \<open>undefined\<close>, which arithmetic converts to not-a-number.
\<close>

definition idx :: "jsnum list \<Rightarrow> nat \<Rightarrow> jsnum" where
  "idx a i = (if i < length a then a ! i else NaN)"

section \<open>Configuration\<close>

definition perspectiveFOV :: jsnum where "perspectiveFOV = Fin 500"
definition modelScale :: jsnum where "modelScale = Fin 300"
definition dragSensitivity :: jsnum where "dragSensitivity = Fin 0.01"
definition rotationInertia :: jsnum where "rotationInertia = Fin 0.99"

definition dotMinSize :: jsnum where "dotMinSize = Fin 2"
definition dotMaxSize :: jsnum where "dotMaxSize = Fin 15"
definition dotMinAlpha :: jsnum where "dotMinAlpha = Fin 0.05"
definition dotMaxAlpha :: jsnum where "dotMaxAlpha = Fin 1"
definition dotSizeDepthEffect :: jsnum where "dotSizeDepthEffect = Fin 0.05"
definition dotSizeOffset :: jsnum where "dotSizeOffset = Fin (- 0.3)"
definition dotAlphaDepthEffect :: jsnum where "dotAlphaDepthEffect = Fin 0.003"
definition dotAlphaOffset :: jsnum where "dotAlphaOffset = Fin 0.01"
definition dotCursorEffectRadius :: jsnum where "dotCursorEffectRadius = Fin 150"
definition dotCursorSizeBoost :: jsnum where "dotCursorSizeBoost = Fin 10"
definition dotCursorAlphaBoost :: jsnum where "dotCursorAlphaBoost = Fin 1"
definition dotCursorZCutoff :: jsnum where "dotCursorZCutoff = Fin 0"

definition lineMinAlpha :: jsnum where "lineMinAlpha = Fin 0"
definition lineMaxAlpha :: jsnum where "lineMaxAlpha = Fin 1"
definition lineAlphaOffset :: jsnum where "lineAlphaOffset = Fin 0"
definition lineCursorEffectRadius :: jsnum where "lineCursorEffectRadius = Fin 100"
definition lineCursorAlphaBoost :: jsnum where "lineCursorAlphaBoost = Fin 1"
definition lineCursorZCutoff :: jsnum where "lineCursorZCutoff = Fin 0"

section \<open>Matrix helpers\<close>

text \<open>
  A matrix is the array of its nine entries, row by row. A vertex and a projected point
  are arrays of exactly three numbers wherever the program builds them, so they are
  triples here.
\<close>

type_synonym vec3 = "jsnum \<times> jsnum \<times> jsnum"

definition identityMatrix :: "jsnum list" where
  "identityMatrix = [Fin 1, Fin 0, Fin 0, Fin 0, Fin 1, Fin 0, Fin 0, Fin 0, Fin 1]"

definition applyMatrix :: "jsnum list \<Rightarrow> vec3 \<Rightarrow> vec3" where
  "applyMatrix m v =
     (case v of (x, y, z) \<Rightarrow>
        (idx m 0 * x + idx m 1 * y + idx m 2 * z,
         idx m 3 * x + idx m 4 * y + idx m 5 * z,
         idx m 6 * x + idx m 7 * y + idx m 8 * z))"

text \<open>
  The two nested loops of \<open>multiplyMatrices\<close> assign \<open>m[r*3+c]\<close> for \<open>r\<close> and \<open>c\<close>
  from 0 to 2 in this order, so they fill the indices 0 to 8 of the empty array one
  after the other.
\<close>

definition multiplyMatrices :: "jsnum list \<Rightarrow> jsnum list \<Rightarrow> jsnum list" where
  "multiplyMatrices a b =
     concat (map (\<lambda>r. map (\<lambda>c.
         idx a (r * 3 + 0) * idx b (0 * 3 + c)
       + idx a (r * 3 + 1) * idx b (1 * 3 + c)
       + idx a (r * 3 + 2) * idx b (2 * 3 + c)) [0 ..< 3]) [0 ..< 3])"

definition rotationMatrixX :: "jsnum \<Rightarrow> jsnum list" where
  "rotationMatrixX angle =
     (let c = Math_cos angle; s = Math_sin angle
      in [Fin 1, Fin 0, Fin 0, Fin 0, c, - s, Fin 0, s, c])"

definition rotationMatrixY :: "jsnum \<Rightarrow> jsnum list" where
  "rotationMatrixY angle =
     (let c = Math_cos angle; s = Math_sin angle
      in [c, Fin 0, s, Fin 0, Fin 1, Fin 0, - s, Fin 0, c])"

section \<open>State and input events\<close>

text \<open>
  The global variables of the renderer. \<open>lastX\<close> and \<open>lastY\<close> are declared without a
  value, so they start as \<open>undefined\<close> (\<open>None\<close>). \<open>scheduled\<close> says that a call of
  \<open>animate\<close> is pending with \<open>requestAnimationFrame\<close>.
\<close>

record state =
  vertices :: "vec3 list"
  faces :: "jsnum list list"
  rotationMatrix :: "jsnum list"
  velX :: jsnum
  velY :: jsnum
  dragging :: bool
  lastX :: "jsnum option"
  lastY :: "jsnum option"
  mouseX :: jsnum
  mouseY :: jsnum
  canvas_width :: jsnum
  canvas_height :: jsnum
  scheduled :: bool

text \<open>\<open>undefined\<close> used as a number is not-a-number.\<close>

fun ToNumber :: "jsnum option \<Rightarrow> jsnum" where
  "ToNumber None = NaN"
| "ToNumber (Some a) = a"

text \<open>The state when the model has been loaded and \<open>animate\<close> is called first.\<close>

definition start :: "real \<Rightarrow> real \<Rightarrow> vec3 list \<Rightarrow> jsnum list list \<Rightarrow> state" where
  "start w h verts facs =
     \<lparr> vertices = verts, faces = facs, rotationMatrix = identityMatrix,
       velX = Fin 0, velY = Fin 0, dragging = False, lastX = None, lastY = None,
       mouseX = Fin w / Fin 2, mouseY = Fin h / Fin 2,
       canvas_width = Fin w, canvas_height = Fin h, scheduled = True \<rparr>"

text \<open>The handlers of \<open>mousedown\<close>, \<open>mouseup\<close>, \<open>mousemove\<close> and \<open>resize\<close>.\<close>

definition mousedown :: "real \<Rightarrow> real \<Rightarrow> state \<Rightarrow> state" where
  "mousedown clientX clientY st =
     st\<lparr>dragging := True, lastX := Some (Fin clientX), lastY := Some (Fin clientY)\<rparr>"

definition mouseup :: "state \<Rightarrow> state" where
  "mouseup st = st\<lparr>dragging := False\<rparr>"

definition mousemove :: "real \<Rightarrow> real \<Rightarrow> state \<Rightarrow> state" where
  "mousemove clientX clientY st =
     (let st1 = st\<lparr>mouseX := Fin clientX, mouseY := Fin clientY\<rparr>
      in if dragging st1
         then st1\<lparr>velY := (Fin clientX - ToNumber (lastX st1)) * (- dragSensitivity),
                  velX := (Fin clientY - ToNumber (lastY st1)) * dragSensitivity,
                  lastX := Some (Fin clientX), lastY := Some (Fin clientY)\<rparr>
         else st1)"

definition resizeCanvas :: "real \<Rightarrow> real \<Rightarrow> state \<Rightarrow> state" where
  "resizeCanvas innerWidth innerHeight st =
     st\<lparr>canvas_width := Fin innerWidth, canvas_height := Fin innerHeight\<rparr>"

section \<open>The OBJ loader\<close>

text \<open>
  A string is the list of its code units, as far as they fit a \<open>char\<close>. White space (for
  \<open>trim\<close> and \<open>\s\<close>) is then tab, line feed, vertical tab, form feed, carriage return,
  space and no-break space.
\<close>

definition is_space :: "char \<Rightarrow> bool" where
  "is_space c \<longleftrightarrow>
     c \<in> set [CHR 0x09, CHR 0x0A, CHR 0x0B, CHR 0x0C, CHR 0x0D, CHR 0x20, CHR 0xA0]"

definition is_digit :: "char \<Rightarrow> bool" where
  "is_digit c \<longleftrightarrow> 48 \<le> (of_char c :: nat) \<and> (of_char c :: nat) \<le> 57"

definition digit_val :: "char \<Rightarrow> nat" where
  "digit_val c = of_char c - 48"

definition trim :: "string \<Rightarrow> string" where
  "trim s = rev (dropWhile is_space (rev (dropWhile is_space s)))"

text \<open>\<open>s.split(sep)\<close> for a separator of one character.\<close>

fun split_on :: "char \<Rightarrow> string \<Rightarrow> string list" where
  "split_on sep [] = [ [] ]"
| "split_on sep (c # cs) =
     (if c = sep then [] # split_on sep cs
      else (case split_on sep cs of t # ts \<Rightarrow> (c # t) # ts | [] \<Rightarrow> [ [c] ]))"

text \<open>\<open>s.split(/\s+/)\<close>: the pieces between the maximal runs of white space.\<close>

function split_ws :: "string \<Rightarrow> string list" where
  "split_ws s =
     (let tok = takeWhile (\<lambda>c. \<not> is_space c) s;
          rest = dropWhile (\<lambda>c. \<not> is_space c) s
      in if rest = [] then [tok] else tok # split_ws (dropWhile is_space rest))"
  by pat_completeness auto
termination
proof (relation "measure length")
  show "wf (measure length)"
    by simp
next
  fix s tok rest :: string
  assume rest: "rest = dropWhile (\<lambda>c. \<not> is_space c) s" and ne: "rest \<noteq> []"
  from ne obtain c r where cr: "rest = c # r"
    by (cases rest) auto
  have "\<not> \<not> is_space (hd rest)"
    using hd_dropWhile [of "\<lambda>c. \<not> is_space c" s] ne unfolding rest by blast
  then have "is_space c"
    by (simp add: cr)
  then have "length (dropWhile is_space rest) \<le> length r"
    by (simp add: cr length_dropWhile_le)
  also have "length r < length rest"
    by (simp add: cr)
  also have "length rest \<le> length s"
    by (simp add: rest length_dropWhile_le)
  finally show "(dropWhile is_space rest, s) \<in> measure length"
    by simp
qed

declare split_ws.simps [simp del]

text \<open>\<open>s.startsWith(p)\<close>.\<close>

definition startsWith :: "string \<Rightarrow> string \<Rightarrow> bool" where
  "startsWith s p \<longleftrightarrow> take (length p) s = p"

text \<open>The number written by a string of decimal digits.\<close>

definition digits_value :: "string \<Rightarrow> nat" where
  "digits_value ds = foldl (\<lambda>n c. 10 * n + digit_val c) 0 ds"

text \<open>An optional sign at the front of a string: whether it is a minus, and the rest.\<close>

fun sign_prefix :: "string \<Rightarrow> bool \<times> string" where
  "sign_prefix [] = (False, [])"
| "sign_prefix (c # cs) =
     (if c = CHR ''-'' then (True, cs)
      else if c = CHR ''+'' then (False, cs)
      else (False, c # cs))"

text \<open>
  The exponent part at the front of a string, \<open>e\<close> or \<open>E\<close>, an optional sign and at
  least one digit; 0 when there is none.
\<close>

fun exponent :: "string \<Rightarrow> int" where
  "exponent [] = 0"
| "exponent (c # cs) =
     (if c = CHR ''e'' \<or> c = CHR ''E''
      then (case sign_prefix cs of (neg, r) \<Rightarrow>
              let ds = takeWhile is_digit r
              in if ds = [] then 0
                 else if neg then - int (digits_value ds) else int (digits_value ds))
      else 0)"

text \<open>
  \<open>parseFloat\<close>: leading white space is skipped and the longest prefix that is a decimal
  literal (sign, \<open>Infinity\<close> or digits with an optional fraction and exponent) gives the
  value; there is none exactly when neither the integer nor the fraction part has a
  digit, and the result is then not-a-number. The value is the exact decimal.
\<close>

definition parseFloat :: "string \<Rightarrow> jsnum" where
  "parseFloat input =
     (case sign_prefix (dropWhile is_space input) of (neg, s) \<Rightarrow>
        if startsWith s ''Infinity'' then (if neg then NInf else PInf)
        else
          let ip = takeWhile is_digit s;
              r1 = dropWhile is_digit s;
              fp = (case r1 of c # r \<Rightarrow> if c = CHR ''.'' then takeWhile is_digit r else []
                    | [] \<Rightarrow> []);
              r2 = (case r1 of c # r \<Rightarrow> if c = CHR ''.'' then dropWhile is_digit r else r1
                    | [] \<Rightarrow> [])
          in if ip = [] \<and> fp = [] then NaN
             else
               let mantissa = real (digits_value (ip @ fp)) / 10 ^ length fp;
                   e = exponent r2;
                   scaled = (if 0 \<le> e then mantissa * 10 ^ nat e
                             else mantissa / 10 ^ nat (- e))
               in Fin (if neg then - scaled else scaled))"

text \<open>
  \<open>parseInt(s, 10)\<close>: after leading white space and an optional sign, the longest run of
  decimal digits; not-a-number when it is empty.
\<close>

definition parseInt :: "string \<Rightarrow> jsnum" where
  "parseInt input =
     (case sign_prefix (dropWhile is_space input) of (neg, s) \<Rightarrow>
        let ds = takeWhile is_digit s
        in if ds = [] then NaN
           else Fin (if neg then - real (digits_value ds) else real (digits_value ds)))"

text \<open>
  \<open>parts[k]\<close> for the pieces of a line, where a missing piece is \<open>undefined\<close>, and
  \<open>parseFloat\<close> of it: \<open>undefined\<close> is first turned into the string \<open>undefined\<close>.
\<close>

definition part :: "string list \<Rightarrow> nat \<Rightarrow> string option" where
  "part parts k = (if k < length parts then Some (parts ! k) else None)"

fun parseFloat_arg :: "string option \<Rightarrow> jsnum" where
  "parseFloat_arg None = parseFloat ''undefined''"
| "parseFloat_arg (Some s) = parseFloat s"

text \<open>
  The body of the loop over the lines: what one line adds to \<open>verts\<close> and \<open>facs\<close>.
  (\<open>split_on\<close> always returns a first piece, the \<open>[0]\<close> of the source.)
\<close>

definition loadOBJ_line ::
  "vec3 list \<times> jsnum list list \<Rightarrow> string \<Rightarrow> vec3 list \<times> jsnum list list" where
  "loadOBJ_line acc line0 =
     (case acc of (verts, facs) \<Rightarrow>
        let line = trim line0
        in if startsWith line ''v ''
           then let parts = split_ws line
                in (verts @ [(parseFloat_arg (part parts 1),
                              parseFloat_arg (part parts 2),
                              parseFloat_arg (part parts 3))], facs)
           else if startsWith line ''f ''
           then let parts = drop 1 (split_ws line)
                in (verts,
                    facs @ [map (\<lambda>p. parseInt (hd (split_on CHR ''/'' p)) - Fin 1) parts])
           else (verts, facs))"

definition loadOBJ_parse :: "string \<Rightarrow> vec3 list \<times> jsnum list list" where
  "loadOBJ_parse text = foldl loadOBJ_line ([], []) (split_on (CHR 0x0A) text)"

text \<open>Centre and scale: the midpoint and the span of one axis, and the largest span.\<close>

definition bbox_center :: "jsnum list \<Rightarrow> jsnum" where
  "bbox_center xs = (Math_min xs + Math_max xs) / Fin 2"

definition bbox_span :: "jsnum list \<Rightarrow> jsnum" where
  "bbox_span xs = Math_max xs - Math_min xs"

definition maxSize :: "vec3 list \<Rightarrow> jsnum" where
  "maxSize verts =
     (let xs = map fst verts;
          ys = map (fst \<circ> snd) verts;
          zs = map (snd \<circ> snd) verts
      in Math_max [bbox_span xs, bbox_span ys, bbox_span zs])"

definition loadOBJ_normalize :: "vec3 list \<Rightarrow> vec3 list" where
  "loadOBJ_normalize verts =
     (let xs = map fst verts;
          ys = map (fst \<circ> snd) verts;
          zs = map (snd \<circ> snd) verts;
          centerX = bbox_center xs;
          centerY = bbox_center ys;
          centerZ = bbox_center zs
      in map (\<lambda>v. (((fst v - centerX) / maxSize verts) * modelScale,
                    ((fst (snd v) - centerY) / maxSize verts) * modelScale,
                    ((snd (snd v) - centerZ) / maxSize verts) * modelScale)) verts)"

text \<open>\<open>loadOBJ\<close>, from the text that \<open>fetch\<close> delivered.\<close>

definition loadOBJ :: "string \<Rightarrow> vec3 list \<times> jsnum list list" where
  "loadOBJ text =
     (case loadOBJ_parse text of (verts, facs) \<Rightarrow> (loadOBJ_normalize verts, facs))"

section \<open>The animation frame\<close>

text \<open>The rotation stage of \<open>animate\<close>: integrate the velocity, then let it decay.\<close>

definition animate_rotation :: "state \<Rightarrow> state" where
  "animate_rotation st =
     (if Math_abs (velX st) > Fin 0.0001 \<or> Math_abs (velY st) > Fin 0.0001 + Fin 0.01
      then
        let rotX = rotationMatrixX (velX st);
            rotY = rotationMatrixY (velY st)
        in st\<lparr>rotationMatrix :=
                 multiplyMatrices rotY (multiplyMatrices rotX (rotationMatrix st)),
               velX := velX st * rotationInertia,
               velY := velY st * rotationInertia\<rparr>
      else st)"

text \<open>The body of the projection loop, for one vertex \<open>v\<close>.\<close>

definition project :: "jsnum list \<Rightarrow> jsnum \<Rightarrow> jsnum \<Rightarrow> vec3 \<Rightarrow> vec3" where
  "project m width height v =
     (case applyMatrix m v of (x, y, z) \<Rightarrow>
        let scale = perspectiveFOV / (perspectiveFOV + z + Fin 5)
        in (width / Fin 2 + x * scale, height / Fin 2 + y * scale, z))"

text \<open>
  \<open>projected[i]\<close> for a face index \<open>i\<close>, which is a number: an element for a whole
  number within the array, \<open>undefined\<close> (\<open>None\<close>) otherwise. Reading a component of
  \<open>undefined\<close> throws a \<open>TypeError\<close>, which the sums below pass on as \<open>None\<close>.
\<close>

fun element :: "vec3 list \<Rightarrow> jsnum \<Rightarrow> vec3 option" where
  "element ps (Fin r) =
     (if 0 \<le> r \<and> r = of_int \<lfloor>r\<rfloor> \<and> nat \<lfloor>r\<rfloor> < length ps
      then Some (ps ! nat \<lfloor>r\<rfloor>) else None)"
| "element ps _ = None"

definition reduce_sum :: "(vec3 \<Rightarrow> jsnum) \<Rightarrow> vec3 list \<Rightarrow> jsnum list \<Rightarrow> jsnum option" where
  "reduce_sum component projected f =
     fold (\<lambda>i sum. case sum of None \<Rightarrow> None
             | Some s \<Rightarrow> (case element projected i of None \<Rightarrow> None
                 | Some p \<Rightarrow> Some (s + component p)))
       f (Some (Fin 0))"

text \<open>The local variables of the face loop, for a face whose three sums are given.\<close>

definition line_dist :: "jsnum \<Rightarrow> jsnum \<Rightarrow> jsnum \<Rightarrow> jsnum \<Rightarrow> jsnum" where
  "line_dist avgX avgY mx my =
     (let dx = avgX - mx;
          dy = avgY - my
      in Math_sqrt (dx * dx + dy * dy))"

definition line_cursorFactor :: "jsnum \<Rightarrow> jsnum \<Rightarrow> jsnum \<Rightarrow> jsnum \<Rightarrow> jsnum" where
  "line_cursorFactor avgX avgY mx my =
     Math_min [line_dist avgX avgY mx my / lineCursorEffectRadius, Fin 1]"

definition line_cursorEffect :: "jsnum \<Rightarrow> jsnum \<Rightarrow> jsnum \<Rightarrow> jsnum \<Rightarrow> jsnum \<Rightarrow> jsnum" where
  "line_cursorEffect avgX avgY avgZ mx my =
     (if avgZ < lineCursorZCutoff
      then (Fin 1 - line_cursorFactor avgX avgY mx my) * lineCursorAlphaBoost
      else Fin 0)"

definition line_alpha :: "jsnum \<Rightarrow> jsnum \<Rightarrow> jsnum \<Rightarrow> jsnum \<Rightarrow> jsnum \<Rightarrow> jsnum" where
  "line_alpha avgX avgY avgZ mx my =
     (let baseAlpha = lineAlphaOffset;
          alpha = baseAlpha + line_cursorEffect avgX avgY avgZ mx my
      in Math_min [Math_max [alpha, lineMinAlpha], lineMaxAlpha])"

text \<open>
  One round of the face loop: the stroke alpha and the points of the closed polyline,
  or \<open>None\<close> when an index of the face names no projected point (a \<open>TypeError\<close>).
\<close>

definition face_avg :: "(vec3 \<Rightarrow> jsnum) \<Rightarrow> vec3 list \<Rightarrow> jsnum list \<Rightarrow> jsnum option" where
  "face_avg component projected f =
     map_option (\<lambda>s. s / Fin (real (length f))) (reduce_sum component projected f)"

definition drawFace :: "vec3 list \<Rightarrow> jsnum \<Rightarrow> jsnum \<Rightarrow> jsnum list \<Rightarrow> (jsnum \<times> vec3 list) option" where
  "drawFace projected mx my f =
     (case (face_avg fst projected f,
            face_avg (fst \<circ> snd) projected f,
            face_avg (snd \<circ> snd) projected f) of
        (Some avgX, Some avgY, Some avgZ) \<Rightarrow>
          (if f = [] then None
           else Some (line_alpha avgX avgY avgZ mx my, map (the \<circ> element projected) f))
      | _ \<Rightarrow> None)"

text \<open>The local variables of the dot loop, for the projected point \<open>p\<close>.\<close>

definition dot_z :: "vec3 \<Rightarrow> jsnum" where
  "dot_z p = - (snd (snd p))"

definition dot_baseRadius :: "vec3 \<Rightarrow> jsnum" where
  "dot_baseRadius p = dot_z p * dotSizeDepthEffect + dotSizeOffset"

definition dot_baseAlpha :: "vec3 \<Rightarrow> jsnum" where
  "dot_baseAlpha p = dot_z p * dotAlphaDepthEffect + dotAlphaOffset"

definition dot_dist :: "vec3 \<Rightarrow> jsnum \<Rightarrow> jsnum \<Rightarrow> jsnum" where
  "dot_dist p mx my =
     (let dx = fst p - mx;
          dy = fst (snd p) - my
      in Math_sqrt (dx * dx + dy * dy))"

definition dot_cursorFactor :: "vec3 \<Rightarrow> jsnum \<Rightarrow> jsnum \<Rightarrow> jsnum" where
  "dot_cursorFactor p mx my =
     Math_min [dot_dist p mx my / dotCursorEffectRadius, Fin 1]"

definition dot_cursorSizeEffect :: "vec3 \<Rightarrow> jsnum \<Rightarrow> jsnum \<Rightarrow> jsnum" where
  "dot_cursorSizeEffect p mx my =
     (if dot_z p > dotCursorZCutoff
      then (Fin 1 - dot_cursorFactor p mx my) * dotCursorSizeBoost
      else Fin 0)"

definition dot_cursorAlphaEffect :: "vec3 \<Rightarrow> jsnum \<Rightarrow> jsnum \<Rightarrow> jsnum" where
  "dot_cursorAlphaEffect p mx my =
     (if dot_z p > dotCursorZCutoff
      then (Fin 1 - dot_cursorFactor p mx my) * dotCursorAlphaBoost
      else Fin 0)"

definition dot_radius :: "vec3 \<Rightarrow> jsnum \<Rightarrow> jsnum \<Rightarrow> jsnum" where
  "dot_radius p mx my =
     (let radius = dot_baseRadius p + dot_cursorSizeEffect p mx my
      in Math_min [Math_max [radius, dotMinSize], dotMaxSize])"

definition dot_alpha :: "vec3 \<Rightarrow> jsnum \<Rightarrow> jsnum \<Rightarrow> jsnum" where
  "dot_alpha p mx my =
     (let alpha = dot_baseAlpha p + dot_cursorAlphaEffect p mx my
      in Math_min [Math_max [alpha, dotMinAlpha], dotMaxAlpha])"

text \<open>
  What one frame draws: for every face its alpha and polyline, then for every vertex the
  centre, radius and alpha of its dot. (The alpha is kept as the number computed; its
  rendering with two decimals in the colour string is left out.)
\<close>

record frame =
  lines :: "(jsnum \<times> vec3 list) list"
  dots :: "(jsnum \<times> jsnum \<times> jsnum \<times> jsnum) list"

text \<open>
  \<open>animate\<close>: the state after the call and what it drew. A \<open>TypeError\<close> in the face
  loop leaves the rotation already advanced, draws no complete frame (\<open>None\<close>) and
  never reaches \<open>requestAnimationFrame\<close>.
\<close>

definition animate :: "state \<Rightarrow> state \<times> frame option" where
  "animate st =
     (let st1 = animate_rotation st;
          projected = map (project (rotationMatrix st1) (canvas_width st1) (canvas_height st1))
                        (vertices st1);
          fs = map (drawFace projected (mouseX st1) (mouseY st1)) (faces st1)
      in if None \<in> set fs then (st1\<lparr>scheduled := False\<rparr>, None)
         else (st1\<lparr>scheduled := True\<rparr>,
               Some \<lparr> lines = map the fs,
                      dots = map (\<lambda>p. (fst p, fst (snd p),
                                        dot_radius p (mouseX st1) (mouseY st1),
                                        dot_alpha p (mouseX st1) (mouseY st1)))
                               projected \<rparr>))"

text \<open>The events of the page, and the renderer's reaction to a sequence of them.\<close>

datatype event =
  MouseDown real real | MouseUp | MouseMove real real | Resize real real | AnimationFrame

fun handle :: "event \<Rightarrow> state \<Rightarrow> state" where
  "handle (MouseDown x y) st = mousedown x y st"
| "handle MouseUp st = mouseup st"
| "handle (MouseMove x y) st = mousemove x y st"
| "handle (Resize w h) st = resizeCanvas w h st"
| "handle AnimationFrame st = (if scheduled st then fst (animate st) else st)"

definition run :: "event list \<Rightarrow> state \<Rightarrow> state" where
  "run evs st = fold handle evs st"

text \<open>The state after one call of \<open>animate\<close>, for counting frames without other events.\<close>

definition tick :: "state \<Rightarrow> state" where
  "tick st = fst (animate st)"


text \<open>
  Orthonormality of a rotation matrix: its nine entries are finite numbers, its rows are
  unit vectors orthogonal to each other, and so are its columns.
\<close>

fun fin :: "jsnum \<Rightarrow> real option" where
  "fin (Fin a) = Some a"
| "fin _ = None"

definition orthonormal :: "jsnum list \<Rightarrow> bool" where
  "orthonormal m =
     (case those (map fin m) of
        Some [a, b, c, d, e, f, g, h, i] \<Rightarrow>
          a * a + b * b + c * c = 1 \<and> d * d + e * e + f * f = 1 \<and> g * g + h * h + i * i = 1 \<and>
          a * d + b * e + c * f = 0 \<and> a * g + b * h + c * i = 0 \<and> d * g + e * h + f * i = 0 \<and>
          a * a + d * d + g * g = 1 \<and> b * b + e * e + h * h = 1 \<and> c * c + f * f + i * i = 1 \<and>
          a * b + d * e + g * h = 0 \<and> a * c + d * f + g * i = 0 \<and> b * c + e * f + h * i = 0
      | _ \<Rightarrow> False)"

text \<open>
  The invariant of the rotation state: the matrix is orthonormal, both velocities are
  finite numbers, and during a drag the last pointer position is known.
\<close>

fun finite_num :: "jsnum \<Rightarrow> bool" where
  "finite_num (Fin a) = True"
| "finite_num _ = False"

definition rotation_invariant :: "state \<Rightarrow> bool" where
  "rotation_invariant st \<longleftrightarrow>
     orthonormal (rotationMatrix st) \<and> finite_num (velX st) \<and> finite_num (velY st) \<and>
     (dragging st \<longrightarrow>
        finite_num (ToNumber (lastX st)) \<and> finite_num (ToNumber (lastY st)))"








section \<open>Properties\<close>

lemmas config_defs =
  perspectiveFOV_def modelScale_def dragSensitivity_def rotationInertia_def
  dotMinSize_def dotMaxSize_def dotMinAlpha_def dotMaxAlpha_def
  dotSizeDepthEffect_def dotSizeOffset_def dotAlphaDepthEffect_def dotAlphaOffset_def
  dotCursorEffectRadius_def dotCursorSizeBoost_def dotCursorAlphaBoost_def
  dotCursorZCutoff_def lineMinAlpha_def lineMaxAlpha_def lineAlphaOffset_def
  lineCursorEffectRadius_def lineCursorAlphaBoost_def lineCursorZCutoff_def


subsection \<open>Arithmetic on finite numbers, array reads\<close>

lemma minus_Fin [simp]: "Fin a - Fin b = Fin (a - b)"
  by (simp add: minus_jsnum_def)

lemma Math_min2_Fin [simp]: "Math_min [Fin a, Fin b] = Fin (min a b)"
  by (simp add: Math_min_def min_def)

lemma Math_max2_Fin [simp]: "Math_max [Fin a, Fin b] = Fin (max a b)"
  by (simp add: Math_max_def max_def)

lemma le_Fin [simp]: "Fin a \<le> Fin b \<longleftrightarrow> a \<le> b"
  by (auto simp: less_eq_jsnum_def)

lemma idx_simps [simp]:
  "idx [] n = NaN"
  "idx (x # xs) 0 = x"
  "idx (x # xs) (Suc n) = idx xs n"
  "idx (x # xs) (numeral k) = idx xs (pred_numeral k)"
  by (simp_all add: idx_def numeral_eq_Suc)

lemma multiplyMatrices_unfold:
  "multiplyMatrices a b =
     [idx a 0 * idx b 0 + idx a 1 * idx b 3 + idx a 2 * idx b 6,
      idx a 0 * idx b 1 + idx a 1 * idx b 4 + idx a 2 * idx b 7,
      idx a 0 * idx b 2 + idx a 1 * idx b 5 + idx a 2 * idx b 8,
      idx a 3 * idx b 0 + idx a 4 * idx b 3 + idx a 5 * idx b 6,
      idx a 3 * idx b 1 + idx a 4 * idx b 4 + idx a 5 * idx b 7,
      idx a 3 * idx b 2 + idx a 4 * idx b 5 + idx a 5 * idx b 8,
      idx a 6 * idx b 0 + idx a 7 * idx b 3 + idx a 8 * idx b 6,
      idx a 6 * idx b 1 + idx a 7 * idx b 4 + idx a 8 * idx b 7,
      idx a 6 * idx b 2 + idx a 7 * idx b 5 + idx a 8 * idx b 8]"
proof -
  have "[0 ..< 3] = [0, 1, 2]"
    by (simp add: upt_rec)
  then show ?thesis
    by (simp add: multiplyMatrices_def numeral_2_eq_2)
qed

text \<open>
  C3: at the identity rotation a vertex \<open>(x, y, z)\<close> is projected to
  \<open>(width/2 + x*scale, height/2 + y*scale)\<close> with \<open>scale = fov / (fov + z + 5)\<close>, and
  \<open>z\<close> is kept as its depth; for \<open>z = 0\<close> the scale is \<open>500 / 505\<close>.
\<close>

theorem project_identity: 
  "project identityMatrix (Fin w) (Fin h) (Fin x, Fin y, Fin z) =
     (Fin w / Fin 2 + Fin x * (perspectiveFOV / (perspectiveFOV + Fin z + Fin 5)),
      Fin h / Fin 2 + Fin y * (perspectiveFOV / (perspectiveFOV + Fin z + Fin 5)),
      Fin z)
   \<and> project identityMatrix (Fin w) (Fin h) (Fin x, Fin y, Fin 0) =
     (Fin (w / 2 + x * (500 / (500 + 5))), Fin (h / 2 + y * (500 / (500 + 5))), Fin 0)"
  by (simp add: project_def applyMatrix_def identityMatrix_def perspectiveFOV_def Let_def)


subsection \<open>Clamping\<close>

lemma clamp_range:
  assumes "x \<noteq> NaN" and "lo \<le> hi"
  shows "Fin lo \<le> Math_min [Math_max [x, Fin lo], Fin hi] \<and>
         Math_min [Math_max [x, Fin lo], Fin hi] \<le> Fin hi"
  using assms by (cases x) (simp_all add: Math_min_def Math_max_def)

lemma dot_dist_Fin:
  "dot_dist (Fin px, Fin py, pz) (Fin mx) (Fin my) =
     Fin (sqrt ((px - mx) * (px - mx) + (py - my) * (py - my)))"
proof -
  have "\<not> (px - mx) * (px - mx) + (py - my) * (py - my) < 0"
    by (simp add: not_less)
  then show ?thesis
    by (simp add: dot_dist_def Let_def)
qed

lemma line_dist_Fin:
  "line_dist (Fin ax) (Fin ay) (Fin mx) (Fin my) =
     Fin (sqrt ((ax - mx) * (ax - mx) + (ay - my) * (ay - my)))"
proof -
  have "\<not> (ax - mx) * (ax - mx) + (ay - my) * (ay - my) < 0"
    by (simp add: not_less)
  then show ?thesis
    by (simp add: line_dist_def Let_def)
qed

lemma dot_cursorFactor_Fin:
  "dot_cursorFactor (Fin px, Fin py, pz) (Fin mx) (Fin my) =
     Fin (min (sqrt ((px - mx) * (px - mx) + (py - my) * (py - my)) / 150) 1)"
  by (simp add: dot_cursorFactor_def dot_dist_Fin dotCursorEffectRadius_def)

lemma line_cursorFactor_Fin:
  "line_cursorFactor (Fin ax) (Fin ay) (Fin mx) (Fin my) =
     Fin (min (sqrt ((ax - mx) * (ax - mx) + (ay - my) * (ay - my)) / 100) 1)"
  by (simp add: line_cursorFactor_def line_dist_Fin lineCursorEffectRadius_def)

lemma dot_radius_preclamp:
  assumes "pz \<noteq> NaN"
  shows "dot_baseRadius (Fin px, Fin py, pz)
           + dot_cursorSizeEffect (Fin px, Fin py, pz) (Fin mx) (Fin my) \<noteq> NaN"
  using assms
  by (cases pz)
     (simp_all add: dot_baseRadius_def dot_cursorSizeEffect_def dot_cursorFactor_Fin dot_z_def
        dotSizeDepthEffect_def dotSizeOffset_def dotCursorZCutoff_def dotCursorSizeBoost_def)

lemma dot_alpha_preclamp:
  assumes "pz \<noteq> NaN"
  shows "dot_baseAlpha (Fin px, Fin py, pz)
           + dot_cursorAlphaEffect (Fin px, Fin py, pz) (Fin mx) (Fin my) \<noteq> NaN"
  using assms
  by (cases pz)
     (simp_all add: dot_baseAlpha_def dot_cursorAlphaEffect_def dot_cursorFactor_Fin dot_z_def
        dotAlphaDepthEffect_def dotAlphaOffset_def dotCursorZCutoff_def dotCursorAlphaBoost_def)

lemma line_alpha_preclamp:
  assumes "az \<noteq> NaN"
  shows "lineAlphaOffset + line_cursorEffect (Fin ax) (Fin ay) az (Fin mx) (Fin my) \<noteq> NaN"
  using assms
  by (cases az)
     (simp_all add: line_cursorEffect_def line_cursorFactor_Fin
        lineAlphaOffset_def lineCursorZCutoff_def lineCursorAlphaBoost_def)

text \<open>
  C5: whatever the depth of a dot (any number, both infinities included) and wherever the
  dot and the cursor are on the screen, the radius of the dot is within
  \<open>[dotMinSize, dotMaxSize]\<close> and its alpha within \<open>[dotMinAlpha, dotMaxAlpha]\<close>; whatever
  the mean depth of a face and wherever its centroid is, the alpha of its lines is
  within \<open>[lineMinAlpha, lineMaxAlpha]\<close>.
\<close>

theorem clamping:
  assumes "pz \<noteq> NaN" and "avgZ \<noteq> NaN"
  shows "dotMinSize \<le> dot_radius (Fin px, Fin py, pz) (Fin mx) (Fin my) \<and>
     dot_radius (Fin px, Fin py, pz) (Fin mx) (Fin my) \<le> dotMaxSize \<and>
     dotMinAlpha \<le> dot_alpha (Fin px, Fin py, pz) (Fin mx) (Fin my) \<and>
     dot_alpha (Fin px, Fin py, pz) (Fin mx) (Fin my) \<le> dotMaxAlpha \<and>
     lineMinAlpha \<le> line_alpha (Fin avgX) (Fin avgY) avgZ (Fin mx) (Fin my) \<and>
     line_alpha (Fin avgX) (Fin avgY) avgZ (Fin mx) (Fin my) \<le> lineMaxAlpha"
proof -
  have r: "(2::real) \<le> 15" and a: "(0.05::real) \<le> 1" and l: "(0::real) \<le> 1"
    by simp_all
  show ?thesis
    unfolding dot_radius_def dot_alpha_def line_alpha_def Let_def
      dotMinSize_def dotMaxSize_def dotMinAlpha_def dotMaxAlpha_def
      lineMinAlpha_def lineMaxAlpha_def
    using clamp_range [OF dot_radius_preclamp [OF assms(1)] r]
      clamp_range [OF dot_alpha_preclamp [OF assms(1)] a]
      clamp_range [OF line_alpha_preclamp [OF assms(2)] l]
    by blast
qed

theorem clamping_witness:
  "NInf \<noteq> NaN \<and> Fin (- 1000000) \<noteq> NaN \<and>
   dotMinSize \<le> dot_radius (Fin 400, Fin 300, NInf) (Fin 400) (Fin 300) \<and>
   dot_radius (Fin 400, Fin 300, NInf) (Fin 400) (Fin 300) \<le> dotMaxSize \<and>
   dotMinAlpha \<le> dot_alpha (Fin 400, Fin 300, NInf) (Fin 400) (Fin 300) \<and>
   dot_alpha (Fin 400, Fin 300, NInf) (Fin 400) (Fin 300) \<le> dotMaxAlpha \<and>
   lineMinAlpha \<le> line_alpha (Fin 12) (Fin 7) (Fin (- 1000000)) (Fin 400) (Fin 300) \<and>
   line_alpha (Fin 12) (Fin 7) (Fin (- 1000000)) (Fin 400) (Fin 300) \<le> lineMaxAlpha"
  using clamping [of NInf "Fin (- 1000000)" 400 300 400 300 12 7]
  by simp

subsection \<open>Cursor falloff\<close>

text \<open>
  The claim C6 as it is written fails for a dot that lies exactly on the cursor but whose
  rotated \<open>z\<close> is positive. The model of the two vertices \<open>(0, 0, 1)\<close> and \<open>(0, 0, -1)\<close>
  is normalised to \<open>(0, 0, 150)\<close> and \<open>(0, 0, -150)\<close>; on a canvas of 800 by 600 the
  first frame projects both to the centre \<open>(400, 300)\<close>, where the cursor starts. The dot
  of the first vertex has cursor factor 0, and its boost terms are 0 instead of the
  configured magnitudes, because the depth cutoff switches the boost off.
\<close>

theorem cursor_boost_counterexample:
  "fst (loadOBJ (''v 0 0 1'' @ [CHR 0x0A] @ ''v 0 0 -1'')) =
     [(Fin 0, Fin 0, Fin 150), (Fin 0, Fin 0, Fin (- 150))] \<and>
   mouseX (start 800 600 [(Fin 0, Fin 0, Fin 150), (Fin 0, Fin 0, Fin (- 150))] []) = Fin 400 \<and>
   mouseY (start 800 600 [(Fin 0, Fin 0, Fin 150), (Fin 0, Fin 0, Fin (- 150))] []) = Fin 300 \<and>
   project identityMatrix (Fin 800) (Fin 600) (Fin 0, Fin 0, Fin 150) = (Fin 400, Fin 300, Fin 150) \<and>
   dot_cursorFactor (Fin 400, Fin 300, Fin 150) (Fin 400) (Fin 300) = Fin 0 \<and>
   dot_cursorSizeEffect (Fin 400, Fin 300, Fin 150) (Fin 400) (Fin 300) \<noteq> dotCursorSizeBoost \<and>
   dot_cursorAlphaEffect (Fin 400, Fin 300, Fin 150) (Fin 400) (Fin 300) \<noteq> dotCursorAlphaBoost"
proof -
  have "fst (loadOBJ (''v 0 0 1'' @ [CHR 0x0A] @ ''v 0 0 -1'')) =
     [(Fin 0, Fin 0, Fin 150), (Fin 0, Fin 0, Fin (- 150))]"
    by code_simp
  moreover have "project identityMatrix (Fin 800) (Fin 600) (Fin 0, Fin 0, Fin 150)
      = (Fin 400, Fin 300, Fin 150)"
    by (simp add: project_def applyMatrix_def identityMatrix_def perspectiveFOV_def Let_def)
  ultimately show ?thesis
    by (simp add: start_def dot_cursorFactor_Fin dot_cursorSizeEffect_def
        dot_cursorAlphaEffect_def dot_z_def dotCursorZCutoff_def dotCursorSizeBoost_def
        dotCursorAlphaBoost_def)
qed

lemma far_cursorFactor:
  assumes "dotCursorEffectRadius \<le> d"
  shows "Math_min [d / dotCursorEffectRadius, Fin 1] = Fin 1"
  using assms
  by (cases d) (auto simp: dotCursorEffectRadius_def Math_min_def less_eq_jsnum_def)

text \<open>
  C6, amended: a dot exactly on the cursor has cursor factor 0, so that
  \<open>(1 - cursorFactor) * boost\<close> is the full \<open>dotCursorSizeBoost\<close> or \<open>dotCursorAlphaBoost\<close>,
  and if its depth (the negated rotated \<open>z\<close>) is above \<open>dotCursorZCutoff\<close> these are the
  boost terms added before clamping; a dot whose distance to the cursor is at least
  \<open>dotCursorEffectRadius\<close> has cursor factor 1 and boost terms exactly 0.
\<close>

theorem cursor_falloff:
  "dot_cursorFactor (Fin mx, Fin my, pz) (Fin mx) (Fin my) = Fin 0 \<and>
   (Fin 1 - dot_cursorFactor (Fin mx, Fin my, pz) (Fin mx) (Fin my)) * dotCursorSizeBoost
     = dotCursorSizeBoost \<and>
   (Fin 1 - dot_cursorFactor (Fin mx, Fin my, pz) (Fin mx) (Fin my)) * dotCursorAlphaBoost
     = dotCursorAlphaBoost \<and>
   (dot_z (Fin mx, Fin my, pz) > dotCursorZCutoff \<longrightarrow>
      dot_cursorSizeEffect (Fin mx, Fin my, pz) (Fin mx) (Fin my) = dotCursorSizeBoost \<and>
      dot_cursorAlphaEffect (Fin mx, Fin my, pz) (Fin mx) (Fin my) = dotCursorAlphaBoost) \<and>
   (dotCursorEffectRadius \<le> dot_dist p cx cy \<longrightarrow>
      dot_cursorFactor p cx cy = Fin 1 \<and>
      dot_cursorSizeEffect p cx cy = Fin 0 \<and>
      dot_cursorAlphaEffect p cx cy = Fin 0)"
proof -
  have at: "dot_cursorFactor (Fin mx, Fin my, pz) (Fin mx) (Fin my) = Fin 0"
    by (simp add: dot_cursorFactor_Fin)
  have far: "dot_cursorFactor p cx cy = Fin 1"
    if "dotCursorEffectRadius \<le> dot_dist p cx cy"
    using far_cursorFactor [OF that] by (simp add: dot_cursorFactor_def)
  show ?thesis
    using at far
    by (simp add: dot_cursorSizeEffect_def dot_cursorAlphaEffect_def
        dotCursorSizeBoost_def dotCursorAlphaBoost_def)
qed

theorem cursor_falloff_witness:
  "dot_z (Fin 400, Fin 300, Fin (- 10)) > dotCursorZCutoff \<and>
   dotCursorEffectRadius \<le> dot_dist (Fin 550, Fin 300, Fin (- 10)) (Fin 400) (Fin 300) \<and>
   dot_cursorFactor (Fin 400, Fin 300, Fin (- 10)) (Fin 400) (Fin 300) = Fin 0 \<and>
   dot_cursorSizeEffect (Fin 400, Fin 300, Fin (- 10)) (Fin 400) (Fin 300) = dotCursorSizeBoost \<and>
   dot_cursorAlphaEffect (Fin 400, Fin 300, Fin (- 10)) (Fin 400) (Fin 300) = dotCursorAlphaBoost \<and>
   dot_cursorFactor (Fin 550, Fin 300, Fin (- 10)) (Fin 400) (Fin 300) = Fin 1 \<and>
   dot_cursorSizeEffect (Fin 550, Fin 300, Fin (- 10)) (Fin 400) (Fin 300) = Fin 0 \<and>
   dot_cursorAlphaEffect (Fin 550, Fin 300, Fin (- 10)) (Fin 400) (Fin 300) = Fin 0"
proof -
  have "sqrt (150 * 150) = \<bar>150::real\<bar>"
    by (rule real_sqrt_abs2)
  then have d: "dotCursorEffectRadius \<le> dot_dist (Fin 550, Fin 300, Fin (- 10)) (Fin 400) (Fin 300)"
    by (simp add: dot_dist_Fin dotCursorEffectRadius_def)
  have z: "dot_z (Fin 400, Fin 300, Fin (- 10)) > dotCursorZCutoff"
    by (simp add: dot_z_def dotCursorZCutoff_def)
  show ?thesis
    using d z cursor_falloff [of 400 300 "Fin (- 10)" "(Fin 550, Fin 300, Fin (- 10))" "Fin 400" "Fin 300"]
    by simp
qed

subsection \<open>Freezing and inertia\<close>

lemma le_not_less: "a \<le> b \<Longrightarrow> \<not> b < a" for a b :: jsnum
  by (cases a; cases b) (auto simp: less_eq_jsnum_def)

lemma tick_fields:
  "rotationMatrix (tick st) = rotationMatrix (animate_rotation st)"
  "velX (tick st) = velX (animate_rotation st)"
  "velY (tick st) = velY (animate_rotation st)"
  by (simp_all add: tick_def animate_def Let_def)

lemma animate_rotation_frozen:
  assumes "Math_abs (velX st) \<le> Fin 0.0001" and "Math_abs (velY st) \<le> Fin 0.0101"
  shows "animate_rotation st = st"
  using le_not_less [OF assms(1)] le_not_less [OF assms(2)]
  by (simp add: animate_rotation_def)

lemma animate_rotation_vel:
  assumes "velX st = Fin v" and "velY st = Fin w"
  shows "velX (animate_rotation st) = Fin (if 0.0001 < \<bar>v\<bar> \<or> 0.0101 < \<bar>w\<bar> then v * 0.99 else v)"
    and "velY (animate_rotation st) = Fin (if 0.0001 < \<bar>v\<bar> \<or> 0.0101 < \<bar>w\<bar> then w * 0.99 else w)"
  using assms by (simp_all add: animate_rotation_def rotationInertia_def Let_def)

text \<open>
  C10: when \<open>|velX| \<le> 0.0001\<close> and \<open>|velY| \<le> 0.0101\<close> at the start of a frame, the
  rotation stage changes nothing, so after any number of frames the rotation matrix
  and both velocities are what they were (a frozen velocity decays no further). The
  thresholds are exactly these: for finite velocities a frame leaves both velocities
  unchanged if and only if \<open>|velX| \<le> 0.0001\<close> and \<open>|velY| \<le> 0.0001 + 0.01\<close>.
\<close>

theorem frozen_tick:
  assumes "Math_abs (velX st) \<le> Fin 0.0001" and "Math_abs (velY st) \<le> Fin 0.0101"
  shows "animate_rotation st = st \<and>
    rotationMatrix ((tick ^^ k) st) = rotationMatrix st \<and>
    velX ((tick ^^ k) st) = velX st \<and>
    velY ((tick ^^ k) st) = velY st \<and>
    ((velX (tick (s\<lparr>velX := Fin vx, velY := Fin vy\<rparr>)) = Fin vx \<and>
      velY (tick (s\<lparr>velX := Fin vx, velY := Fin vy\<rparr>)) = Fin vy)
       \<longleftrightarrow> \<bar>vx\<bar> \<le> 0.0001 \<and> \<bar>vy\<bar> \<le> 0.0001 + 0.01)"
proof -
  have "rotationMatrix ((tick ^^ k) st) = rotationMatrix st \<and>
    velX ((tick ^^ k) st) = velX st \<and> velY ((tick ^^ k) st) = velY st"
  proof (induction k)
    case 0
    show ?case by simp
  next
    case (Suc k)
    let ?s = "(tick ^^ k) st"
    have "animate_rotation ?s = ?s"
      using Suc assms by (intro animate_rotation_frozen) simp_all
    then show ?case
      using Suc by (simp add: tick_fields)
  qed
  moreover have "(velX (tick (s\<lparr>velX := Fin vx, velY := Fin vy\<rparr>)) = Fin vx \<and>
      velY (tick (s\<lparr>velX := Fin vx, velY := Fin vy\<rparr>)) = Fin vy)
       \<longleftrightarrow> \<bar>vx\<bar> \<le> 0.0001 \<and> \<bar>vy\<bar> \<le> 0.0001 + 0.01"
    by (auto simp: tick_fields animate_rotation_vel [where v = vx and w = vy])
  ultimately show ?thesis
    using animate_rotation_frozen [OF assms] by blast
qed

theorem frozen_tick_witness:
  "Math_abs (velX ((start 800 600 [] [])\<lparr>velX := Fin 0.0001, velY := Fin (- 0.0101)\<rparr>)) \<le> Fin 0.0001 \<and>
   Math_abs (velY ((start 800 600 [] [])\<lparr>velX := Fin 0.0001, velY := Fin (- 0.0101)\<rparr>)) \<le> Fin 0.0101 \<and>
   rotationMatrix ((tick ^^ 7) ((start 800 600 [] [])\<lparr>velX := Fin 0.0001, velY := Fin (- 0.0101)\<rparr>))
     = identityMatrix \<and>
   velX ((tick ^^ 7) ((start 800 600 [] [])\<lparr>velX := Fin 0.0001, velY := Fin (- 0.0101)\<rparr>)) = Fin 0.0001 \<and>
   velY ((tick ^^ 7) ((start 800 600 [] [])\<lparr>velX := Fin 0.0001, velY := Fin (- 0.0101)\<rparr>)) = Fin (- 0.0101)"
  using frozen_tick [of "(start 800 600 [] [])\<lparr>velX := Fin 0.0001, velY := Fin (- 0.0101)\<rparr>" 7]
  by (simp add: start_def)

lemma ticks_finite:
  assumes "velX st = Fin v0" and "velY st = Fin w0"
  shows "\<exists>v w. velX ((tick ^^ k) st) = Fin v \<and> velY ((tick ^^ k) st) = Fin w"
proof (induction k)
  case 0
  show ?case using assms by simp
next
  case (Suc k)
  then obtain v w where "velX ((tick ^^ k) st) = Fin v" "velY ((tick ^^ k) st) = Fin w"
    by blast
  then show ?case
    by (simp add: tick_fields animate_rotation_vel)
qed

lemma ticks_integrating:
  assumes "velX st = Fin v0" and "velY st = Fin w0"
    and "k = 0 \<or> 0.0001 < \<bar>v0\<bar> * 0.99 ^ (k - 1) \<or> 0.0101 < \<bar>w0\<bar> * 0.99 ^ (k - 1)"
  shows "velX ((tick ^^ k) st) = Fin (v0 * 0.99 ^ k) \<and>
         velY ((tick ^^ k) st) = Fin (w0 * 0.99 ^ k)"
  using assms(3)
proof (induction k)
  case 0
  show ?case using assms by simp
next
  case (Suc k)
  have guard: "0.0001 < \<bar>v0\<bar> * 0.99 ^ k \<or> 0.0101 < \<bar>w0\<bar> * 0.99 ^ k"
    using Suc.prems by simp
  have "k = 0 \<or> 0.0001 < \<bar>v0\<bar> * 0.99 ^ (k - 1) \<or> 0.0101 < \<bar>w0\<bar> * 0.99 ^ (k - 1)"
  proof (cases k)
    case 0
    then show ?thesis by simp
  next
    case (Suc j)
    have "\<bar>v0\<bar> * 0.99 ^ Suc j \<le> \<bar>v0\<bar> * 0.99 ^ j" "\<bar>w0\<bar> * 0.99 ^ Suc j \<le> \<bar>w0\<bar> * 0.99 ^ j"
      by (simp_all add: mult_left_le)
    then show ?thesis
      using guard Suc by auto
  qed
  then have vel: "velX ((tick ^^ k) st) = Fin (v0 * 0.99 ^ k)"
    "velY ((tick ^^ k) st) = Fin (w0 * 0.99 ^ k)"
    using Suc.IH by simp_all
  have "\<bar>v0 * 0.99 ^ k\<bar> = \<bar>v0\<bar> * 0.99 ^ k" "\<bar>w0 * 0.99 ^ k\<bar> = \<bar>w0\<bar> * 0.99 ^ k"
    by (simp_all add: abs_mult)
  then show ?case
    using guard by (simp add: tick_fields animate_rotation_vel [OF vel] mult.assoc)
qed

lemma pow27: "(0.76234::real) \<le> 0.99 ^ 27" "(0.99::real) ^ 27 \<le> 0.76235"
  by (simp_all add: field_simps)

lemma pow459_upper: "(0.99::real) ^ 459 < 0.01"
proof -
  have e: "(459::nat) = 27 * 17"
    by simp
  have "(0.99::real) ^ 459 = (0.99 ^ 27) ^ 17"
    unfolding e by (rule power_mult)
  also have "\<dots> \<le> 0.76235 ^ 17"
    by (rule power_mono) (rule pow27(2), simp)
  also have "\<dots> < 0.01"
    by (simp add: field_simps)
  finally show ?thesis .
qed

lemma pow458_lower: "(0.01::real) < 0.99 ^ 458"
proof -
  define x :: real where "x = 0.99 ^ 458"
  have e: "(459::nat) = 27 * 17" and e2: "(459::nat) = Suc 458"
    by simp_all
  have "(0.0099::real) < 0.76234 ^ 17"
    by (simp add: field_simps)
  also have "\<dots> \<le> (0.99 ^ 27) ^ 17"
    by (rule power_mono) (rule pow27(1), simp)
  also have "\<dots> = (0.99::real) ^ 459"
    unfolding e by (rule power_mult [symmetric])
  also have "\<dots> = x * 0.99"
    unfolding e2 x_def by (rule power_Suc2)
  finally have "0.0099 < x * 0.99" .
  then have "0.01 < x"
    by simp
  then show ?thesis
    unfolding x_def .
qed

lemma freeze_after:
  assumes "velX st = Fin v0" and "velY st = Fin 0" and "0 < v0"
    and "0.0001 < v0 * 0.99 ^ (k - 1)" and "v0 * 0.99 ^ k \<le> 0.0001"
  shows "velX ((tick ^^ Suc k) st) = Fin (v0 * 0.99 ^ k)"
    and "velX ((tick ^^ Suc k) st) \<noteq> Fin (v0 * 0.99 ^ Suc k)"
proof -
  have "0.0001 < \<bar>v0\<bar> * 0.99 ^ (k - 1)"
    using assms(3,4) by simp
  then have vel: "velX ((tick ^^ k) st) = Fin (v0 * 0.99 ^ k)"
    "velY ((tick ^^ k) st) = Fin (0 * 0.99 ^ k)"
    using ticks_integrating [OF assms(1,2), of k] by simp_all
  have "\<not> 0.0001 < \<bar>v0 * 0.99 ^ k\<bar>"
    using assms(3,5) by (simp add: abs_mult)
  then show 1: "velX ((tick ^^ Suc k) st) = Fin (v0 * 0.99 ^ k)"
    by (simp add: tick_fields animate_rotation_vel [OF vel])
  have "v0 * 0.99 ^ k \<noteq> v0 * 0.99 ^ Suc k"
    using assms(3) by simp
  then show "velX ((tick ^^ Suc k) st) \<noteq> Fin (v0 * 0.99 ^ Suc k)"
    unfolding 1 by simp
qed

text \<open>
  The claim C2 as it is written fails once the velocity has decayed under the freeze
  threshold: a drag of one pixel downwards gives \<open>velX = 0.01\<close> and \<open>velY = 0\<close>; the
  first 459 frames integrate, then \<open>0.01 * 0.99 ^ 459 \<le> 0.0001\<close> and frame 460 leaves
  \<open>velX\<close> as it is.
\<close>

theorem inertia_decay_counterexample:
  "velX (run [MouseDown 100 100, MouseMove 100 101, MouseUp] (start 800 600 [] [])) = Fin 0.01 \<and>
   velX ((tick ^^ 460) (run [MouseDown 100 100, MouseMove 100 101, MouseUp] (start 800 600 [] [])))
     \<noteq> Fin (0.01 * 0.99 ^ 460)"
proof -
  let ?st = "run [MouseDown 100 100, MouseMove 100 101, MouseUp] (start 800 600 [] [])"
  have vx: "velX ?st = Fin 0.01" and vy: "velY ?st = Fin 0"
    by (simp_all add: run_def start_def mousedown_def mousemove_def mouseup_def
        dragSensitivity_def Let_def)
  have e: "(460::nat) = Suc 459" and e': "459 - 1 = (458::nat)"
    by simp_all
  define x y :: real where "x = 0.99 ^ 458" and "y = 0.99 ^ 459"
  have "0.01 < x" and "y < 0.01"
    unfolding x_def y_def by (rule pow458_lower, rule pow459_upper)
  then have "0.0001 < 0.01 * x" and "0.01 * y \<le> 0.0001"
    by simp_all
  then have a: "(0.0001::real) < 0.01 * 0.99 ^ (459 - 1)"
    and b: "(0.01::real) * 0.99 ^ 459 \<le> 0.0001"
    unfolding x_def y_def e' .
  have "velX ((tick ^^ Suc 459) ?st) \<noteq> Fin (0.01 * 0.99 ^ Suc 459)"
    by (rule freeze_after(2) [OF vx vy _ a b]) simp
  then show ?thesis
    unfolding e using vx by (simp only: simp_thms)
qed

lemma ticks_frozen:
  assumes "\<not> (Math_abs (velX st) > Fin 0.0001 \<or> Math_abs (velY st) > Fin 0.0001 + Fin 0.01)"
  shows "velX ((tick ^^ n) st) = velX st \<and> velY ((tick ^^ n) st) = velY st"
proof (induction n)
  case 0
  show ?case by simp
next
  case (Suc n)
  let ?s = "(tick ^^ n) st"
  have "animate_rotation ?s = ?s"
    using Suc assms by (simp add: animate_rotation_def)
  then show ?case
    using Suc by (simp add: tick_fields)
qed

lemma integrates_earlier:
  assumes "Math_abs (velX ((tick ^^ k) st)) > Fin 0.0001
      \<or> Math_abs (velY ((tick ^^ k) st)) > Fin 0.0001 + Fin 0.01"
    and "j \<le> k"
  shows "Math_abs (velX ((tick ^^ j) st)) > Fin 0.0001
      \<or> Math_abs (velY ((tick ^^ j) st)) > Fin 0.0001 + Fin 0.01"
proof (rule ccontr)
  assume frozen: "\<not> (Math_abs (velX ((tick ^^ j) st)) > Fin 0.0001
      \<or> Math_abs (velY ((tick ^^ j) st)) > Fin 0.0001 + Fin 0.01)"
  have "(tick ^^ ((k - j) + j)) st = (tick ^^ (k - j)) ((tick ^^ j) st)"
    by (simp only: funpow_add comp_apply)
  then have "(tick ^^ k) st = (tick ^^ (k - j)) ((tick ^^ j) st)"
    using assms(2) by simp
  then have "velX ((tick ^^ k) st) = velX ((tick ^^ j) st)"
    and "velY ((tick ^^ k) st) = velY ((tick ^^ j) st)"
    using ticks_frozen [OF frozen, of "k - j"] by simp_all
  with assms(1) frozen show False
    by simp
qed

lemma ticks_product:
  assumes "k = 0 \<or> Math_abs (velX ((tick ^^ (k - 1)) st)) > Fin 0.0001
      \<or> Math_abs (velY ((tick ^^ (k - 1)) st)) > Fin 0.0001 + Fin 0.01"
  shows "velX ((tick ^^ k) st) = ((\<lambda>v. v * rotationInertia) ^^ k) (velX st) \<and>
         velY ((tick ^^ k) st) = ((\<lambda>v. v * rotationInertia) ^^ k) (velY st)"
  using assms
proof (induction k)
  case 0
  show ?case by simp
next
  case (Suc k)
  then have guard: "Math_abs (velX ((tick ^^ k) st)) > Fin 0.0001
      \<or> Math_abs (velY ((tick ^^ k) st)) > Fin 0.0001 + Fin 0.01"
    by simp
  have "k = 0 \<or> Math_abs (velX ((tick ^^ (k - 1)) st)) > Fin 0.0001
      \<or> Math_abs (velY ((tick ^^ (k - 1)) st)) > Fin 0.0001 + Fin 0.01"
    using integrates_earlier [OF guard, of "k - 1"] by simp
  then have ih: "velX ((tick ^^ k) st) = ((\<lambda>v. v * rotationInertia) ^^ k) (velX st)"
    "velY ((tick ^^ k) st) = ((\<lambda>v. v * rotationInertia) ^^ k) (velY st)"
    using Suc.IH by simp_all
  have "velX (animate_rotation ((tick ^^ k) st)) = velX ((tick ^^ k) st) * rotationInertia"
    and "velY (animate_rotation ((tick ^^ k) st)) = velY ((tick ^^ k) st) * rotationInertia"
    using guard by (auto simp: animate_rotation_def Let_def)
  then show ?case
    by (simp add: tick_fields ih)
qed

lemma product_closed_form:
  "((\<lambda>v. v * rotationInertia) ^^ k) (Fin v0) = Fin (v0 * 0.99 ^ k)"
  by (induction k) (simp_all add: rotationInertia_def mult.assoc)

text \<open>
  C2, amended: without drag input, from finite \<open>velX = v0\<close> and \<open>velY = w0\<close>, provided the
  \<open>k\<close>-th frame still integrates (\<open>k = 0\<close>, or before that frame \<open>|velX| > 0.0001\<close> or
  \<open>|velY| > 0.0001 + 0.01\<close>; all earlier frames then integrate too), the velocity after \<open>k\<close>
  frames is \<open>v0\<close> multiplied \<open>k\<close> times by \<open>rotationInertia\<close>, which is \<open>v0 * 0.99 ^ k\<close> over
  the exact reals. Once both velocities are at or under their thresholds they are frozen:
  every later frame leaves them as they are. In every case the magnitude of \<open>velX\<close> never
  grows from one frame to the next.
\<close>

theorem inertia_decay:
  assumes "velX st = Fin v0" and "velY st = Fin w0"
    and "k = 0 \<or> Math_abs (velX ((tick ^^ (k - 1)) st)) > Fin 0.0001
      \<or> Math_abs (velY ((tick ^^ (k - 1)) st)) > Fin 0.0001 + Fin 0.01"
  shows "velX ((tick ^^ k) st) = ((\<lambda>v. v * rotationInertia) ^^ k) (velX st) \<and>
     velX ((tick ^^ k) st) = Fin (v0 * 0.99 ^ k) \<and>
     (\<forall>j n. Math_abs (velX ((tick ^^ j) st)) \<le> Fin 0.0001 \<and>
            Math_abs (velY ((tick ^^ j) st)) \<le> Fin 0.0001 + Fin 0.01 \<longrightarrow>
            velX ((tick ^^ (j + n)) st) = velX ((tick ^^ j) st) \<and>
            velY ((tick ^^ (j + n)) st) = velY ((tick ^^ j) st)) \<and>
     (\<forall>j. Math_abs (velX ((tick ^^ Suc j) st)) \<le> Math_abs (velX ((tick ^^ j) st)))"
proof -
  have prod: "velX ((tick ^^ k) st) = ((\<lambda>v. v * rotationInertia) ^^ k) (velX st)"
    using ticks_product [OF assms(3)] by simp
  then have closed: "velX ((tick ^^ k) st) = Fin (v0 * 0.99 ^ k)"
    by (simp add: assms(1) product_closed_form)
  have frozen: "velX ((tick ^^ (j + n)) st) = velX ((tick ^^ j) st) \<and>
      velY ((tick ^^ (j + n)) st) = velY ((tick ^^ j) st)"
    if "Math_abs (velX ((tick ^^ j) st)) \<le> Fin 0.0001"
      and "Math_abs (velY ((tick ^^ j) st)) \<le> Fin 0.0001 + Fin 0.01" for j n
  proof -
    have "\<not> (Math_abs (velX ((tick ^^ j) st)) > Fin 0.0001
        \<or> Math_abs (velY ((tick ^^ j) st)) > Fin 0.0001 + Fin 0.01)"
      using le_not_less [OF that(1)] le_not_less [OF that(2)] by simp
    moreover have "(tick ^^ (n + j)) st = (tick ^^ n) ((tick ^^ j) st)"
      by (simp only: funpow_add comp_apply)
    ultimately show ?thesis
      using ticks_frozen [of "(tick ^^ j) st" n] by (simp add: add.commute)
  qed
  have mono: "Math_abs (velX ((tick ^^ Suc j) st)) \<le> Math_abs (velX ((tick ^^ j) st))" for j
  proof -
    obtain v w where vw: "velX ((tick ^^ j) st) = Fin v" "velY ((tick ^^ j) st) = Fin w"
      using ticks_finite [OF assms(1,2)] by blast
    have "\<bar>v * 0.99\<bar> \<le> \<bar>v\<bar>"
      by (simp add: abs_mult mult_left_le)
    then show ?thesis
      by (simp add: tick_fields animate_rotation_vel [OF vw] vw)
  qed
  show ?thesis
    using prod closed frozen mono by blast
qed

theorem inertia_decay_witness:
  "velX ((start 800 600 [] [])\<lparr>velX := Fin 0.01\<rparr>) = Fin 0.01 \<and>
   velY ((start 800 600 [] [])\<lparr>velX := Fin 0.01\<rparr>) = Fin 0 \<and>
   ((3::nat) = 0
      \<or> Math_abs (velX ((tick ^^ (3 - 1)) ((start 800 600 [] [])\<lparr>velX := Fin 0.01\<rparr>))) > Fin 0.0001
      \<or> Math_abs (velY ((tick ^^ (3 - 1)) ((start 800 600 [] [])\<lparr>velX := Fin 0.01\<rparr>)))
           > Fin 0.0001 + Fin 0.01) \<and>
   velX ((tick ^^ 3) ((start 800 600 [] [])\<lparr>velX := Fin 0.01\<rparr>)) =
     ((Fin 0.01 * rotationInertia) * rotationInertia) * rotationInertia \<and>
   velX ((tick ^^ 3) ((start 800 600 [] [])\<lparr>velX := Fin 0.01\<rparr>)) = Fin (0.01 * 0.99 ^ 3) \<and>
   Math_abs (velX ((tick ^^ Suc 5) ((start 800 600 [] [])\<lparr>velX := Fin 0.01\<rparr>)))
     \<le> Math_abs (velX ((tick ^^ 5) ((start 800 600 [] [])\<lparr>velX := Fin 0.01\<rparr>))) \<and>
   Math_abs (velX ((tick ^^ 0) ((start 800 600 [] [])\<lparr>velX := Fin 0.0001, velY := Fin 0.0101\<rparr>)))
     \<le> Fin 0.0001 \<and>
   Math_abs (velY ((tick ^^ 0) ((start 800 600 [] [])\<lparr>velX := Fin 0.0001, velY := Fin 0.0101\<rparr>)))
     \<le> Fin 0.0001 + Fin 0.01 \<and>
   velX ((tick ^^ (0 + 4)) ((start 800 600 [] [])\<lparr>velX := Fin 0.0001, velY := Fin 0.0101\<rparr>))
     = Fin 0.0001 \<and>
   velY ((tick ^^ (0 + 4)) ((start 800 600 [] [])\<lparr>velX := Fin 0.0001, velY := Fin 0.0101\<rparr>))
     = Fin 0.0101"
proof -
  let ?st = "(start 800 600 [] [])\<lparr>velX := Fin 0.01\<rparr>"
  let ?fr = "(start 800 600 [] [])\<lparr>velX := Fin 0.0001, velY := Fin 0.0101\<rparr>"
  have h1: "velX ?st = Fin 0.01" and h2: "velY ?st = Fin 0"
    by (simp_all add: start_def)
  have "velX ((tick ^^ 2) ?st) = Fin (0.01 * 0.99 ^ 2)"
    using ticks_integrating [OF h1 h2, of 2] by (simp add: power2_eq_square)
  then have "Math_abs (velX ((tick ^^ (3 - 1)) ?st)) > Fin 0.0001"
    by (simp add: power2_eq_square)
  then have h3: "(3::nat) = 0 \<or> Math_abs (velX ((tick ^^ (3 - 1)) ?st)) > Fin 0.0001
      \<or> Math_abs (velY ((tick ^^ (3 - 1)) ?st)) > Fin 0.0001 + Fin 0.01"
    by blast
  have p: "((\<lambda>v. v * rotationInertia) ^^ 3) (velX ?st)
      = ((Fin 0.01 * rotationInertia) * rotationInertia) * rotationInertia"
    by (simp add: h1 eval_nat_numeral)
  have f1: "velX ?fr = Fin 0.0001" and f2: "velY ?fr = Fin 0.0101"
    by (simp_all add: start_def)
  have f3: "(0::nat) = 0 \<or> Math_abs (velX ((tick ^^ (0 - 1)) ?fr)) > Fin 0.0001
      \<or> Math_abs (velY ((tick ^^ (0 - 1)) ?fr)) > Fin 0.0001 + Fin 0.01"
    by simp
  have a1: "Math_abs (velX ((tick ^^ 0) ?fr)) \<le> Fin 0.0001"
    and a2: "Math_abs (velY ((tick ^^ 0) ?fr)) \<le> Fin 0.0001 + Fin 0.01"
    by (simp_all add: start_def)
  have fr: "velX ((tick ^^ (0 + 4)) ?fr) = Fin 0.0001 \<and> velY ((tick ^^ (0 + 4)) ?fr) = Fin 0.0101"
    using inertia_decay [OF f1 f2 f3] a1 a2 f1 f2 by (metis funpow_0)
  show ?thesis
    using h1 h2 h3 p inertia_decay [OF h1 h2 h3] a1 a2 fr by metis
qed

subsection \<open>Rotation matrices\<close>

lemma rotX_real:
  fixes a b c d e f g h i co si :: real
  assumes "co * co + si * si = 1"
    and "(a) * (a) + (b) * (b) + (c) * (c) = 1"
    and "(d) * (d) + (e) * (e) + (f) * (f) = 1"
    and "(g) * (g) + (h) * (h) + (i) * (i) = 1"
    and "(a) * (d) + (b) * (e) + (c) * (f) = 0"
    and "(a) * (g) + (b) * (h) + (c) * (i) = 0"
    and "(d) * (g) + (e) * (h) + (f) * (i) = 0"
    and "(a) * (a) + (d) * (d) + (g) * (g) = 1"
    and "(b) * (b) + (e) * (e) + (h) * (h) = 1"
    and "(c) * (c) + (f) * (f) + (i) * (i) = 1"
    and "(a) * (b) + (d) * (e) + (g) * (h) = 0"
    and "(a) * (c) + (d) * (f) + (g) * (i) = 0"
    and "(b) * (c) + (e) * (f) + (h) * (i) = 0"
  shows "(a) * (a) + (b) * (b) + (c) * (c) = 1"
    and "(co * d - si * g) * (co * d - si * g) + (co * e - si * h) * (co * e - si * h) + (co * f - si * i) * (co * f - si * i) = 1"
    and "(si * d + co * g) * (si * d + co * g) + (si * e + co * h) * (si * e + co * h) + (si * f + co * i) * (si * f + co * i) = 1"
    and "(a) * (co * d - si * g) + (b) * (co * e - si * h) + (c) * (co * f - si * i) = 0"
    and "(a) * (si * d + co * g) + (b) * (si * e + co * h) + (c) * (si * f + co * i) = 0"
    and "(co * d - si * g) * (si * d + co * g) + (co * e - si * h) * (si * e + co * h) + (co * f - si * i) * (si * f + co * i) = 0"
    and "(a) * (a) + (co * d - si * g) * (co * d - si * g) + (si * d + co * g) * (si * d + co * g) = 1"
    and "(b) * (b) + (co * e - si * h) * (co * e - si * h) + (si * e + co * h) * (si * e + co * h) = 1"
    and "(c) * (c) + (co * f - si * i) * (co * f - si * i) + (si * f + co * i) * (si * f + co * i) = 1"
    and "(a) * (b) + (co * d - si * g) * (co * e - si * h) + (si * d + co * g) * (si * e + co * h) = 0"
    and "(a) * (c) + (co * d - si * g) * (co * f - si * i) + (si * d + co * g) * (si * f + co * i) = 0"
    and "(b) * (c) + (co * e - si * h) * (co * f - si * i) + (si * e + co * h) * (si * f + co * i) = 0"
  using assms by algebra+

lemma rotY_real:
  fixes a b c d e f g h i co si :: real
  assumes "co * co + si * si = 1"
    and "(a) * (a) + (b) * (b) + (c) * (c) = 1"
    and "(d) * (d) + (e) * (e) + (f) * (f) = 1"
    and "(g) * (g) + (h) * (h) + (i) * (i) = 1"
    and "(a) * (d) + (b) * (e) + (c) * (f) = 0"
    and "(a) * (g) + (b) * (h) + (c) * (i) = 0"
    and "(d) * (g) + (e) * (h) + (f) * (i) = 0"
    and "(a) * (a) + (d) * (d) + (g) * (g) = 1"
    and "(b) * (b) + (e) * (e) + (h) * (h) = 1"
    and "(c) * (c) + (f) * (f) + (i) * (i) = 1"
    and "(a) * (b) + (d) * (e) + (g) * (h) = 0"
    and "(a) * (c) + (d) * (f) + (g) * (i) = 0"
    and "(b) * (c) + (e) * (f) + (h) * (i) = 0"
  shows "(co * a + si * g) * (co * a + si * g) + (co * b + si * h) * (co * b + si * h) + (co * c + si * i) * (co * c + si * i) = 1"
    and "(d) * (d) + (e) * (e) + (f) * (f) = 1"
    and "(co * g - si * a) * (co * g - si * a) + (co * h - si * b) * (co * h - si * b) + (co * i - si * c) * (co * i - si * c) = 1"
    and "(co * a + si * g) * (d) + (co * b + si * h) * (e) + (co * c + si * i) * (f) = 0"
    and "(co * a + si * g) * (co * g - si * a) + (co * b + si * h) * (co * h - si * b) + (co * c + si * i) * (co * i - si * c) = 0"
    and "(d) * (co * g - si * a) + (e) * (co * h - si * b) + (f) * (co * i - si * c) = 0"
    and "(co * a + si * g) * (co * a + si * g) + (d) * (d) + (co * g - si * a) * (co * g - si * a) = 1"
    and "(co * b + si * h) * (co * b + si * h) + (e) * (e) + (co * h - si * b) * (co * h - si * b) = 1"
    and "(co * c + si * i) * (co * c + si * i) + (f) * (f) + (co * i - si * c) * (co * i - si * c) = 1"
    and "(co * a + si * g) * (co * b + si * h) + (d) * (e) + (co * g - si * a) * (co * h - si * b) = 0"
    and "(co * a + si * g) * (co * c + si * i) + (d) * (f) + (co * g - si * a) * (co * i - si * c) = 0"
    and "(co * b + si * h) * (co * c + si * i) + (e) * (f) + (co * h - si * b) * (co * i - si * c) = 0"
  using assms by algebra+

lemma finite_num_iff: "finite_num x \<longleftrightarrow> (\<exists>a. x = Fin a)"
  by (cases x) simp_all

lemma finite_num_arith [simp]:
  assumes "finite_num a" and "finite_num b"
  shows "finite_num (a + b)" and "finite_num (a - b)" and "finite_num (a * b)"
    and "finite_num (- a)"
  using assms by (auto simp: finite_num_iff)

lemma orthonormal_Fin:
  "orthonormal [Fin a, Fin b, Fin c, Fin d, Fin e, Fin f, Fin g, Fin h, Fin i] \<longleftrightarrow>
          a * a + b * b + c * c = 1 \<and> d * d + e * e + f * f = 1 \<and> g * g + h * h + i * i = 1 \<and>
          a * d + b * e + c * f = 0 \<and> a * g + b * h + c * i = 0 \<and> d * g + e * h + f * i = 0 \<and>
          a * a + d * d + g * g = 1 \<and> b * b + e * e + h * h = 1 \<and> c * c + f * f + i * i = 1 \<and>
          a * b + d * e + g * h = 0 \<and> a * c + d * f + g * i = 0 \<and> b * c + e * f + h * i = 0"
  by (simp add: orthonormal_def)

lemma those_fin: "those (map fin m) = Some r \<Longrightarrow> m = map Fin r"
proof (induction m arbitrary: r)
  case Nil
  then show ?case by simp
next
  case (Cons x m)
  then show ?case
    by (cases x) (auto split: option.splits)
qed

lemma orthonormal_shape:
  assumes "orthonormal m"
  obtains a b c d e f g h i
  where "m = [Fin a, Fin b, Fin c, Fin d, Fin e, Fin f, Fin g, Fin h, Fin i]"
proof -
  from assms obtain r where r: "those (map fin m) = Some r"
    by (auto simp: orthonormal_def split: option.splits)
  with assms have "length r = 9"
    by (auto simp: orthonormal_def split: list.splits)
  then obtain a b c d e f g h i where "r = [a, b, c, d, e, f, g, h, i]"
    by (auto simp: length_Suc_conv eval_nat_numeral)
  with those_fin [OF r] that show thesis
    by simp
qed

lemma rotationMatrixX_Fin:
  "rotationMatrixX (Fin t) =
     [Fin 1, Fin 0, Fin 0, Fin 0, Fin (cos t), Fin (- sin t), Fin 0, Fin (sin t), Fin (cos t)]"
  by (simp add: rotationMatrixX_def Let_def)

lemma rotationMatrixY_Fin:
  "rotationMatrixY (Fin t) =
     [Fin (cos t), Fin 0, Fin (sin t), Fin 0, Fin 1, Fin 0, Fin (- sin t), Fin 0, Fin (cos t)]"
  by (simp add: rotationMatrixY_def Let_def)

lemma multiplyMatrices_Fin:
  "multiplyMatrices [Fin a0, Fin a1, Fin a2, Fin a3, Fin a4, Fin a5, Fin a6, Fin a7, Fin a8]
                    [Fin b0, Fin b1, Fin b2, Fin b3, Fin b4, Fin b5, Fin b6, Fin b7, Fin b8] =
     [Fin (a0 * b0 + a1 * b3 + a2 * b6), Fin (a0 * b1 + a1 * b4 + a2 * b7),
      Fin (a0 * b2 + a1 * b5 + a2 * b8),
      Fin (a3 * b0 + a4 * b3 + a5 * b6), Fin (a3 * b1 + a4 * b4 + a5 * b7),
      Fin (a3 * b2 + a4 * b5 + a5 * b8),
      Fin (a6 * b0 + a7 * b3 + a8 * b6), Fin (a6 * b1 + a7 * b4 + a8 * b7),
      Fin (a6 * b2 + a7 * b5 + a8 * b8)]"
  by (simp add: multiplyMatrices_unfold)

lemma mult_rotX:
  "multiplyMatrices (rotationMatrixX (Fin t))
       [Fin a, Fin b, Fin c, Fin d, Fin e, Fin f, Fin g, Fin h, Fin i] =
     [Fin a, Fin b, Fin c,
      Fin (cos t * d - sin t * g), Fin (cos t * e - sin t * h), Fin (cos t * f - sin t * i),
      Fin (sin t * d + cos t * g), Fin (sin t * e + cos t * h), Fin (sin t * f + cos t * i)]"
  by (simp add: rotationMatrixX_Fin multiplyMatrices_Fin)

lemma mult_rotY:
  "multiplyMatrices (rotationMatrixY (Fin t))
       [Fin a, Fin b, Fin c, Fin d, Fin e, Fin f, Fin g, Fin h, Fin i] =
     [Fin (cos t * a + sin t * g), Fin (cos t * b + sin t * h), Fin (cos t * c + sin t * i),
      Fin d, Fin e, Fin f,
      Fin (cos t * g - sin t * a), Fin (cos t * h - sin t * b), Fin (cos t * i - sin t * c)]"
  by (simp add: rotationMatrixY_Fin multiplyMatrices_Fin)

lemma orthonormal_rotX:
  assumes "orthonormal m"
  shows "orthonormal (multiplyMatrices (rotationMatrixX (Fin t)) m)"
proof -
  obtain a b c d e f g h i
    where m: "m = [Fin a, Fin b, Fin c, Fin d, Fin e, Fin f, Fin g, Fin h, Fin i]"
    using assms by (rule orthonormal_shape)
  have cs: "cos t * cos t + sin t * sin t = 1"
    by (rule sin_cos_squared_add3)
  from assms have o:
    "a * a + b * b + c * c = 1" "d * d + e * e + f * f = 1" "g * g + h * h + i * i = 1"
    "a * d + b * e + c * f = 0" "a * g + b * h + c * i = 0" "d * g + e * h + f * i = 0"
    "a * a + d * d + g * g = 1" "b * b + e * e + h * h = 1" "c * c + f * f + i * i = 1"
    "a * b + d * e + g * h = 0" "a * c + d * f + g * i = 0" "b * c + e * f + h * i = 0"
    unfolding m orthonormal_Fin by blast+
  show ?thesis
    unfolding m mult_rotX orthonormal_Fin
    using rotX_real [OF cs o] by blast
qed

lemma orthonormal_rotY:
  assumes "orthonormal m"
  shows "orthonormal (multiplyMatrices (rotationMatrixY (Fin t)) m)"
proof -
  obtain a b c d e f g h i
    where m: "m = [Fin a, Fin b, Fin c, Fin d, Fin e, Fin f, Fin g, Fin h, Fin i]"
    using assms by (rule orthonormal_shape)
  have cs: "cos t * cos t + sin t * sin t = 1"
    by (rule sin_cos_squared_add3)
  from assms have o:
    "a * a + b * b + c * c = 1" "d * d + e * e + f * f = 1" "g * g + h * h + i * i = 1"
    "a * d + b * e + c * f = 0" "a * g + b * h + c * i = 0" "d * g + e * h + f * i = 0"
    "a * a + d * d + g * g = 1" "b * b + e * e + h * h = 1" "c * c + f * f + i * i = 1"
    "a * b + d * e + g * h = 0" "a * c + d * f + g * i = 0" "b * c + e * f + h * i = 0"
    unfolding m orthonormal_Fin by blast+
  show ?thesis
    unfolding m mult_rotY orthonormal_Fin
    using rotY_real [OF cs o] by blast
qed

lemma orthonormal_identity: "orthonormal identityMatrix"
  by (simp add: identityMatrix_def orthonormal_Fin)

lemma animate_rotation_invariant:
  assumes "orthonormal (rotationMatrix st)" and "finite_num (velX st)" and "finite_num (velY st)"
  shows "orthonormal (rotationMatrix (animate_rotation st)) \<and>
         finite_num (velX (animate_rotation st)) \<and> finite_num (velY (animate_rotation st))"
proof -
  obtain v w where vw: "velX st = Fin v" "velY st = Fin w"
    using assms(2,3) by (auto simp: finite_num_iff)
  show ?thesis
    using assms(1) orthonormal_rotY [OF orthonormal_rotX [OF assms(1)], of w v]
    by (simp add: animate_rotation_def vw rotationInertia_def Let_def)
qed

lemma animate_other_fields:
  "dragging (fst (animate st)) = dragging st"
  "lastX (fst (animate st)) = lastX st"
  "lastY (fst (animate st)) = lastY st"
  "rotationMatrix (fst (animate st)) = rotationMatrix (animate_rotation st)"
  "velX (fst (animate st)) = velX (animate_rotation st)"
  "velY (fst (animate st)) = velY (animate_rotation st)"
  by (simp_all add: animate_def animate_rotation_def Let_def)

lemma handle_invariant:
  assumes "rotation_invariant st"
  shows "rotation_invariant (handle ev st)"
proof (cases ev)
  case (MouseDown x y)
  with assms show ?thesis
    by (simp add: rotation_invariant_def mousedown_def)
next
  case MouseUp
  with assms show ?thesis
    by (simp add: rotation_invariant_def mouseup_def)
next
  case (MouseMove x y)
  with assms show ?thesis
    by (simp add: rotation_invariant_def mousemove_def Let_def dragSensitivity_def)
next
  case (Resize w h)
  with assms show ?thesis
    by (simp add: rotation_invariant_def resizeCanvas_def)
next
  case AnimationFrame
  with assms animate_rotation_invariant [of st] show ?thesis
    by (simp add: rotation_invariant_def animate_other_fields)
qed

lemma run_invariant:
  assumes "rotation_invariant st"
  shows "rotation_invariant (run evs st)"
  using assms unfolding run_def
  by (induction evs arbitrary: st) (simp_all add: handle_invariant)

lemma start_invariant: "rotation_invariant (start w h verts facs)"
  by (simp add: rotation_invariant_def start_def orthonormal_identity)

text \<open>
  C8: the rotation matrix is orthonormal throughout: the identity matrix it starts from
  is and so are \<open>Rx\<close> and \<open>Ry\<close> at every finite angle, it still is after any sequence of pointer events, resizes and animation frames,
  and a single frame keeps it so whenever both velocities are finite (over the exact
  reals; nothing re-orthonormalises the matrix).
\<close>

theorem rotation_orthonormal:
  "orthonormal identityMatrix \<and>
   orthonormal (rotationMatrixX (Fin a)) \<and>
   orthonormal (rotationMatrixY (Fin b)) \<and>
   orthonormal (rotationMatrix (run evs (start w h verts facs))) \<and>
   (orthonormal (rotationMatrix st) \<and> finite_num (velX st) \<and> finite_num (velY st)
      \<longrightarrow> orthonormal (rotationMatrix (tick st)))"
proof -
  have sc: "sin t * sin t + cos t * cos t = 1" for t :: real
    using sin_cos_squared_add3 [of t] by (simp add: add.commute)
  have "orthonormal (rotationMatrixX (Fin a))" and "orthonormal (rotationMatrixY (Fin b))"
    by (simp_all add: rotationMatrixX_Fin rotationMatrixY_Fin orthonormal_Fin
        sin_cos_squared_add3 sc)
  then show ?thesis
    using run_invariant [OF start_invariant, of evs w h verts facs]
      animate_rotation_invariant [of st]
    by (simp add: orthonormal_identity rotation_invariant_def tick_fields)
qed

theorem rotation_orthonormal_witness:
  "orthonormal (rotationMatrix ((start 800 600 [] [])\<lparr>velX := Fin 0.5, velY := Fin 0.25\<rparr>)) \<and>
   finite_num (velX ((start 800 600 [] [])\<lparr>velX := Fin 0.5, velY := Fin 0.25\<rparr>)) \<and>
   finite_num (velY ((start 800 600 [] [])\<lparr>velX := Fin 0.5, velY := Fin 0.25\<rparr>)) \<and>
   orthonormal (rotationMatrix (tick ((start 800 600 [] [])\<lparr>velX := Fin 0.5, velY := Fin 0.25\<rparr>))) \<and>
   orthonormal (rotationMatrix
     (run [MouseDown 10 10, MouseMove 30 20, AnimationFrame, MouseUp, AnimationFrame]
        (start 800 600 [] [])))"
proof -
  let ?st = "(start 800 600 [] [])\<lparr>velX := Fin 0.5, velY := Fin 0.25\<rparr>"
  have h: "orthonormal (rotationMatrix ?st) \<and> finite_num (velX ?st) \<and> finite_num (velY ?st)"
    by (simp add: start_def identityMatrix_def orthonormal_Fin)
  show ?thesis
    using h rotation_orthonormal
      [of _ _ "[MouseDown 10 10, MouseMove 30 20, AnimationFrame, MouseUp, AnimationFrame]"
          800 600 "[]" "[]" ?st]
    by blast
qed

lemma sin_small_pos: "0 < sin (0.01::real)"
proof -
  have "(0.01::real) < pi"
    using pi_ge_two by simp
  then show ?thesis
    by (intro sin_gt_zero) simp_all
qed

lemma applyMatrix_Fin:
  "applyMatrix [Fin a, Fin b, Fin c, Fin d, Fin e, Fin f, Fin g, Fin h, Fin i] (Fin x, Fin y, Fin z) =
     (Fin (a * x + b * y + c * z), Fin (d * x + e * y + f * z), Fin (g * x + h * y + i * z))"
  by (simp add: applyMatrix_def)

text \<open>
  C4: a frame that integrates replaces the rotation matrix by
  \<open>Ry(velY) * (Rx(velX) * oldMatrix)\<close>, where \<open>multiplyMatrices\<close> is the product of
  3x3 matrices (rows by columns) and \<open>Rx\<close>, \<open>Ry\<close> are the right-handed rotations about
  the X and Y axes (\<open>Rx\<close> turns the Y axis towards Z, \<open>Ry\<close> turns the Z axis towards X);
  for both angles 0.01 the result differs from the reverse order \<open>Rx * (Ry * oldMatrix)\<close>.
\<close>

theorem rotation_composition:
  assumes "Math_abs (velX st) > Fin 0.0001 \<or> Math_abs (velY st) > Fin 0.0001 + Fin 0.01"
  shows "rotationMatrix (tick st) =
       multiplyMatrices (rotationMatrixY (velY st))
         (multiplyMatrices (rotationMatrixX (velX st)) (rotationMatrix st)) \<and>
     rotationMatrixX (Fin t) =
       [Fin 1, Fin 0, Fin 0,
        Fin 0, Fin (cos t), Fin (- sin t),
        Fin 0, Fin (sin t), Fin (cos t)] \<and>
     rotationMatrixY (Fin t) =
       [Fin (cos t), Fin 0, Fin (sin t),
        Fin 0, Fin 1, Fin 0,
        Fin (- sin t), Fin 0, Fin (cos t)] \<and>
     applyMatrix (rotationMatrixX (Fin t)) (Fin 0, Fin 1, Fin 0) = (Fin 0, Fin (cos t), Fin (sin t)) \<and>
     applyMatrix (rotationMatrixY (Fin t)) (Fin 0, Fin 0, Fin 1) = (Fin (sin t), Fin 0, Fin (cos t)) \<and>
     multiplyMatrices [Fin a0, Fin a1, Fin a2, Fin a3, Fin a4, Fin a5, Fin a6, Fin a7, Fin a8]
                      [Fin b0, Fin b1, Fin b2, Fin b3, Fin b4, Fin b5, Fin b6, Fin b7, Fin b8] =
       [Fin (a0 * b0 + a1 * b3 + a2 * b6), Fin (a0 * b1 + a1 * b4 + a2 * b7),
        Fin (a0 * b2 + a1 * b5 + a2 * b8),
        Fin (a3 * b0 + a4 * b3 + a5 * b6), Fin (a3 * b1 + a4 * b4 + a5 * b7),
        Fin (a3 * b2 + a4 * b5 + a5 * b8),
        Fin (a6 * b0 + a7 * b3 + a8 * b6), Fin (a6 * b1 + a7 * b4 + a8 * b7),
        Fin (a6 * b2 + a7 * b5 + a8 * b8)] \<and>
     multiplyMatrices (rotationMatrixY (Fin 0.01))
         (multiplyMatrices (rotationMatrixX (Fin 0.01)) identityMatrix) \<noteq>
       multiplyMatrices (rotationMatrixX (Fin 0.01))
         (multiplyMatrices (rotationMatrixY (Fin 0.01)) identityMatrix)"
proof -
  have step: "rotationMatrix (tick st) =
       multiplyMatrices (rotationMatrixY (velY st))
         (multiplyMatrices (rotationMatrixX (velX st)) (rotationMatrix st))"
    using assms by (auto simp: tick_fields animate_rotation_def Let_def)
  have ax: "applyMatrix (rotationMatrixX (Fin t)) (Fin 0, Fin 1, Fin 0) = (Fin 0, Fin (cos t), Fin (sin t))"
    and ay: "applyMatrix (rotationMatrixY (Fin t)) (Fin 0, Fin 0, Fin 1) = (Fin (sin t), Fin 0, Fin (cos t))"
    by (simp_all add: rotationMatrixX_Fin rotationMatrixY_Fin applyMatrix_Fin)
  have "sin (0.01::real) * sin 0.01 \<noteq> 0"
    using sin_small_pos by simp
  then have nc: "multiplyMatrices (rotationMatrixY (Fin 0.01))
         (multiplyMatrices (rotationMatrixX (Fin 0.01)) identityMatrix) \<noteq>
       multiplyMatrices (rotationMatrixX (Fin 0.01))
         (multiplyMatrices (rotationMatrixY (Fin 0.01)) identityMatrix)"
    by (simp add: identityMatrix_def mult_rotX mult_rotY)
  show ?thesis
    using step ax ay nc rotationMatrixX_Fin [of t] rotationMatrixY_Fin [of t]
      multiplyMatrices_Fin [of a0 a1 a2 a3 a4 a5 a6 a7 a8 b0 b1 b2 b3 b4 b5 b6 b7 b8]
    by blast
qed

theorem rotation_composition_witness:
  "(Math_abs (velX ((start 800 600 [] [])\<lparr>velX := Fin 0.02, velY := Fin (- 0.03)\<rparr>)) > Fin 0.0001 \<or>
    Math_abs (velY ((start 800 600 [] [])\<lparr>velX := Fin 0.02, velY := Fin (- 0.03)\<rparr>))
      > Fin 0.0001 + Fin 0.01) \<and>
   rotationMatrix (tick ((start 800 600 [] [])\<lparr>velX := Fin 0.02, velY := Fin (- 0.03)\<rparr>)) =
     multiplyMatrices (rotationMatrixY (Fin (- 0.03)))
       (multiplyMatrices (rotationMatrixX (Fin 0.02)) identityMatrix)"
proof -
  let ?st = "(start 800 600 [] [])\<lparr>velX := Fin 0.02, velY := Fin (- 0.03)\<rparr>"
  have g: "Math_abs (velX ?st) > Fin 0.0001 \<or> Math_abs (velY ?st) > Fin 0.0001 + Fin 0.01"
    by (simp add: start_def)
  have f: "velX ?st = Fin 0.02" "velY ?st = Fin (- 0.03)" "rotationMatrix ?st = identityMatrix"
    by (simp_all add: start_def)
  show ?thesis
    using g rotation_composition [OF g] unfolding f by blast
qed

subsection \<open>Depth cutoffs of the cursor boost\<close>

lemma element_valid:
  assumes "i < length ps"
  shows "element ps (Fin (real i)) = Some (ps ! i)"
  using assms by simp






subsection \<open>Loading and normalising a model\<close>


























text \<open>
  C9: a model text whose second vertex line has a token that is no number and whose
  third vertex line lacks a coordinate. No line is skipped and nothing fails: all three
  vertices are stored, with not-a-number for the bad coordinates; the midpoint of the
  \<open>z\<close> axis and the largest span are then not-a-number, and so is every coordinate that
  \<open>loadOBJ\<close> returns.
\<close>

theorem malformed_vertex_line:
  "loadOBJ_parse (''v 0 0 0'' @ [CHR 0x0A] @ ''v 4 2 abc'' @ [CHR 0x0A] @ ''v 2 8'') =
     ([(Fin 0, Fin 0, Fin 0), (Fin 4, Fin 2, NaN), (Fin 2, Fin 8, NaN)], []) \<and>
   bbox_center (map (snd \<circ> snd)
       (fst (loadOBJ_parse (''v 0 0 0'' @ [CHR 0x0A] @ ''v 4 2 abc'' @ [CHR 0x0A] @ ''v 2 8''))))
     = NaN \<and>
   maxSize (fst (loadOBJ_parse (''v 0 0 0'' @ [CHR 0x0A] @ ''v 4 2 abc'' @ [CHR 0x0A] @ ''v 2 8'')))
     = NaN \<and>
   loadOBJ (''v 0 0 0'' @ [CHR 0x0A] @ ''v 4 2 abc'' @ [CHR 0x0A] @ ''v 2 8'') =
     ([(NaN, NaN, NaN), (NaN, NaN, NaN), (NaN, NaN, NaN)], [])"
  by code_simp

end
